theory Spec2Isabelle
  imports Complex_Main
begin

section \<open>Numbers and errors\<close>

text \<open>
  The program computes with numpy double-precision numbers. A finite number is modelled as an
  exact \<open>real\<close> (rounding and overflow are not modelled). The special values \<open>inf\<close>,
  \<open>-inf\<close> and \<open>nan\<close> are modelled explicitly, because numpy arithmetic does not raise
  on a division by zero: it yields \<open>inf\<close> or \<open>-inf\<close> (non-zero numerator) or \<open>nan\<close>
  (zero numerator), which then propagate. The sign of a zero is not modelled: every zero divisor
  of the modelled code is a variance (a square, or an array of \<open>np.zeros\<close>), that is \<open>+0.0\<close>.
\<close>

datatype npfloat = Fin real | PInf | NInf | NaN

datatype py_error = IndexError | ValueError | ZeroDivisionError | AttributeError | LinAlgError

fun isfinite :: "npfloat \<Rightarrow> bool" where
  "isfinite (Fin x) = True"
| "isfinite PInf = False"
| "isfinite NInf = False"
| "isfinite NaN = False"

fun fneg :: "npfloat \<Rightarrow> npfloat" where
  "fneg (Fin x) = Fin (- x)"
| "fneg PInf = NInf"
| "fneg NInf = PInf"
| "fneg NaN = NaN"

fun fadd :: "npfloat \<Rightarrow> npfloat \<Rightarrow> npfloat" where
  "fadd (Fin x) (Fin y) = Fin (x + y)"
| "fadd (Fin x) PInf = PInf"
| "fadd (Fin x) NInf = NInf"
| "fadd (Fin x) NaN = NaN"
| "fadd PInf (Fin y) = PInf"
| "fadd PInf PInf = PInf"
| "fadd PInf NInf = NaN"
| "fadd PInf NaN = NaN"
| "fadd NInf (Fin y) = NInf"
| "fadd NInf PInf = NaN"
| "fadd NInf NInf = NInf"
| "fadd NInf NaN = NaN"
| "fadd NaN y = NaN"

definition fsub :: "npfloat \<Rightarrow> npfloat \<Rightarrow> npfloat" where
  "fsub x y = fadd x (fneg y)"

fun fmul :: "npfloat \<Rightarrow> npfloat \<Rightarrow> npfloat" where
  "fmul (Fin x) (Fin y) = Fin (x * y)"
| "fmul (Fin x) PInf = (if 0 < x then PInf else if x < 0 then NInf else NaN)"
| "fmul (Fin x) NInf = (if 0 < x then NInf else if x < 0 then PInf else NaN)"
| "fmul (Fin x) NaN = NaN"
| "fmul PInf (Fin y) = (if 0 < y then PInf else if y < 0 then NInf else NaN)"
| "fmul PInf PInf = PInf"
| "fmul PInf NInf = NInf"
| "fmul PInf NaN = NaN"
| "fmul NInf (Fin y) = (if 0 < y then NInf else if y < 0 then PInf else NaN)"
| "fmul NInf PInf = NInf"
| "fmul NInf NInf = PInf"
| "fmul NInf NaN = NaN"
| "fmul NaN y = NaN"

fun fdiv :: "npfloat \<Rightarrow> npfloat \<Rightarrow> npfloat" where
  "fdiv (Fin x) (Fin y) =
     (if y \<noteq> 0 then Fin (x / y) else if x = 0 then NaN else if 0 < x then PInf else NInf)"
| "fdiv (Fin x) PInf = Fin 0"
| "fdiv (Fin x) NInf = Fin 0"
| "fdiv (Fin x) NaN = NaN"
| "fdiv PInf (Fin y) = (if 0 \<le> y then PInf else NInf)"
| "fdiv PInf PInf = NaN"
| "fdiv PInf NInf = NaN"
| "fdiv PInf NaN = NaN"
| "fdiv NInf (Fin y) = (if 0 \<le> y then NInf else PInf)"
| "fdiv NInf PInf = NaN"
| "fdiv NInf NInf = NaN"
| "fdiv NInf NaN = NaN"
| "fdiv NaN y = NaN"

text \<open>\<open>np.sum\<close> of a one-dimensional array; the sum of the empty array is \<open>0.0\<close>.\<close>

definition fsum :: "npfloat list \<Rightarrow> npfloat" where
  "fsum xs = foldr fadd xs (Fin 0)"

text \<open>IEEE comparison \<open>x < y\<close>: every comparison with \<open>nan\<close> is false.\<close>

fun fless :: "npfloat \<Rightarrow> npfloat \<Rightarrow> bool" where
  "fless (Fin x) (Fin y) = (x < y)"
| "fless (Fin x) PInf = True"
| "fless (Fin x) NInf = False"
| "fless (Fin x) NaN = False"
| "fless PInf y = False"
| "fless NInf (Fin y) = True"
| "fless NInf PInf = True"
| "fless NInf NInf = False"
| "fless NInf NaN = False"
| "fless NaN y = False"

text \<open>\<open>np.min\<close> and \<open>np.max\<close> propagate \<open>nan\<close> and raise on an empty array.\<close>

definition fmin2 :: "npfloat \<Rightarrow> npfloat \<Rightarrow> npfloat" where
  "fmin2 a b = (if a = NaN \<or> b = NaN then NaN else if fless b a then b else a)"

definition fmax2 :: "npfloat \<Rightarrow> npfloat \<Rightarrow> npfloat" where
  "fmax2 a b = (if a = NaN \<or> b = NaN then NaN else if fless a b then b else a)"

definition np_min :: "npfloat list \<Rightarrow> py_error + npfloat" where
  "np_min xs = (case xs of [] \<Rightarrow> Inl ValueError | x # ys \<Rightarrow> Inr (foldl fmin2 x ys))"

definition np_max :: "npfloat list \<Rightarrow> py_error + npfloat" where
  "np_max xs = (case xs of [] \<Rightarrow> Inl ValueError | x # ys \<Rightarrow> Inr (foldl fmax2 x ys))"

subsection \<open>Results that may raise\<close>

definition bind_res :: "py_error + 'a \<Rightarrow> ('a \<Rightarrow> py_error + 'b) \<Rightarrow> py_error + 'b" where
  "bind_res m f = (case m of Inl e \<Rightarrow> Inl e | Inr x \<Rightarrow> f x)"

definition map_res :: "('a \<Rightarrow> 'b) \<Rightarrow> py_error + 'a \<Rightarrow> py_error + 'b" where
  "map_res f m = (case m of Inl e \<Rightarrow> Inl e | Inr x \<Rightarrow> Inr (f x))"

text \<open>\<open>collect\<close> evaluates a list of results from left to right and stops at the first error.\<close>

fun collect :: "(py_error + 'a) list \<Rightarrow> py_error + 'a list" where
  "collect [] = Inr []"
| "collect (m # ms) =
     (case m of Inl e \<Rightarrow> Inl e
      | Inr x \<Rightarrow> (case collect ms of Inl e \<Rightarrow> Inl e | Inr xs \<Rightarrow> Inr (x # xs)))"

subsection \<open>numpy indexing and broadcasting\<close>

text \<open>\<open>a[i]\<close> for a non-negative index: out of range raises \<open>IndexError\<close>.\<close>

definition row :: "'a list \<Rightarrow> nat \<Rightarrow> py_error + 'a" where
  "row a i = (if i < length a then Inr (a ! i) else Inl IndexError)"

text \<open>\<open>a[i:j]\<close> for non-negative bounds: a slice never raises.\<close>

definition slice :: "nat \<Rightarrow> nat \<Rightarrow> 'a list \<Rightarrow> 'a list" where
  "slice i j a = drop i (take j a)"

text \<open>
  An elementwise binary operation on two one-dimensional arrays: equal lengths, or one operand
  of length one that is broadcast; otherwise numpy raises \<open>ValueError\<close>. The in-place form
  (\<open>xs += ys\<close>) must keep the shape of \<open>xs\<close>.
\<close>

definition np_binop :: "('a \<Rightarrow> 'b \<Rightarrow> 'c) \<Rightarrow> 'a list \<Rightarrow> 'b list \<Rightarrow> py_error + 'c list" where
  "np_binop f xs ys =
     (if length xs = length ys then Inr (map2 f xs ys)
      else if length xs = 1 then Inr (map (f (hd xs)) ys)
      else if length ys = 1 then Inr (map (\<lambda>x. f x (hd ys)) xs)
      else Inl ValueError)"

definition np_iop :: "('a \<Rightarrow> 'b \<Rightarrow> 'a) \<Rightarrow> 'a list \<Rightarrow> 'b list \<Rightarrow> py_error + 'a list" where
  "np_iop f xs ys =
     (if length xs = length ys then Inr (map2 f xs ys)
      else if length ys = 1 then Inr (map (\<lambda>x. f x (hd ys)) xs)
      else Inl ValueError)"

text \<open>The same for two-dimensional arrays (lists of rows), broadcasting along the rows too.\<close>

definition mat_binop ::
  "('a \<Rightarrow> 'b \<Rightarrow> 'c) \<Rightarrow> 'a list list \<Rightarrow> 'b list list \<Rightarrow> py_error + 'c list list" where
  "mat_binop f A B =
     (if length A = length B then collect (map2 (np_binop f) A B)
      else if length A = 1 then collect (map (np_binop f (hd A)) B)
      else if length B = 1 then collect (map (\<lambda>a. np_binop f a (hd B)) A)
      else Inl ValueError)"

definition mat_iop ::
  "('a \<Rightarrow> 'b \<Rightarrow> 'a) \<Rightarrow> 'a list list \<Rightarrow> 'b list list \<Rightarrow> py_error + 'a list list" where
  "mat_iop f A B =
     (if length A = length B then collect (map2 (np_iop f) A B)
      else if length B = 1 then collect (map (\<lambda>a. np_iop f a (hd B)) A)
      else Inl ValueError)"

text \<open>
  \<open>(A.T * f).T\<close> for a two-dimensional \<open>A\<close> and a one-dimensional \<open>f\<close>: row \<open>i\<close> of
  \<open>A\<close> is multiplied by \<open>f[i]\<close>; a single \<open>f\<close> or a single row is broadcast.
\<close>

definition scale_rows :: "real list list \<Rightarrow> npfloat list \<Rightarrow> py_error + npfloat list list" where
  "scale_rows A f =
     (if length f = length A then Inr (map2 (\<lambda>r c. map (\<lambda>x. fmul (Fin x) c) r) A f)
      else if length f = 1 then Inr (map (map (\<lambda>x. fmul (Fin x) (hd f))) A)
      else if length A = 1 then Inr (map (\<lambda>c. map (\<lambda>x. fmul (Fin x) c) (hd A)) f)
      else Inl ValueError)"


section \<open>Constants of \<open>Defaults.py\<close>\<close>


section \<open>The mask builder\<close>

text \<open>
  \<open>anafastMask\<close> reads \<open>Defaults.NPIXEL\<close>, \<open>Defaults.idx_muon\<close> and the galaxy
  sample's \<open>idx_galaxymask\<close>; the latter two are results of \<open>np.where\<close> (non-negative pixel
  indices) that come from the pixelisation library and the catalogue, so they are parameters here.
  \<open>mask_nu[idx] = 1\<close> raises \<open>IndexError\<close> when an index is out of bounds. The function
  sets \<open>idx_mask\<close> and \<open>f_sky\<close>, which are returned.
\<close>

definition set_mask :: "bool list \<Rightarrow> nat list \<Rightarrow> py_error + bool list" where
  "set_mask mask_nu idx =
     (if list_all (\<lambda>i. i < length mask_nu) idx
      then Inr (foldl (\<lambda>m i. m[i := True]) mask_nu idx)
      else Inl IndexError)"

definition np_where :: "bool list \<Rightarrow> nat list" where
  "np_where mask_nu = filter (\<lambda>i. mask_nu ! i) [0..<length mask_nu]"

definition anafastMask :: "nat \<Rightarrow> nat list \<Rightarrow> nat list \<Rightarrow> py_error + (nat list \<times> real)" where
  "anafastMask NPIXEL idx_muon idx_galaxymask =
     bind_res (set_mask (replicate NPIXEL False) idx_muon) (\<lambda>mask_nu.
     bind_res (set_mask mask_nu idx_galaxymask) (\<lambda>mask_nu.
       let idx_mask = np_where mask_nu in
       if NPIXEL = 0 then Inl ZeroDivisionError
       else Inr (idx_mask, 1 - real (length idx_mask) / real NPIXEL)))"

text \<open>
  The words of the specification: a pixel is usable when neither mask covers it.
\<close>

definition usable_pixels :: "nat \<Rightarrow> nat list \<Rightarrow> nat list \<Rightarrow> nat list" where
  "usable_pixels NPIXEL idx_muon idx_galaxymask =
     filter (\<lambda>i. i \<notin> set idx_muon \<and> i \<notin> set idx_galaxymask) [0..<NPIXEL]"

section \<open>The likelihood engine of \<open>Likelihood.py\<close>\<close>

text \<open>
  The attributes of a \<open>Likelihood\<close> object that the likelihood functions read. The
  two-dimensional arrays are indexed by energy bin, then by multipole; \<open>Ebinmin\<close>,
  \<open>Ebinmax\<close> and \<open>lmin\<close> are indices (non-negative). \<open>w_atm_std\<close> and
  \<open>w_atm_std_square\<close> are \<open>None\<close> while the attribute does not exist yet.
\<close>

record likelihood =
  Ebinmin :: nat
  Ebinmax :: nat
  lmin :: nat
  w_model_f1 :: "real list list"
  w_atm_mean :: "real list list"
  w_atm_std :: "real list list option"
  w_atm_std_square :: "real list list option"
  w_data :: "real list list"
  w_std :: "real list list"
  w_std_square :: "real list list"



definition log_likelihood_Ebin :: "likelihood \<Rightarrow> npfloat \<Rightarrow> nat \<Rightarrow> py_error + npfloat" where
  "log_likelihood_Ebin L f energyBin =
     bind_res (row (w_model_f1 L) energyBin) (\<lambda>s.
     bind_res (row (w_atm_mean L) energyBin) (\<lambda>b.
     bind_res (np_iop fadd (map (\<lambda>x. fmul (Fin x) f) s)
                  (map (\<lambda>x. fmul (Fin x) (fsub (Fin 1) f)) b)) (\<lambda>w_model_mean.
     bind_res (row (w_std_square L) energyBin) (\<lambda>w_model_std_square.
     bind_res (row (w_data L) energyBin) (\<lambda>d.
     bind_res (np_binop (\<lambda>x y. fsub (Fin x) y) d w_model_mean) (\<lambda>diff.
     bind_res (np_binop (\<lambda>x v. fdiv x (Fin v)) (map (\<lambda>x. fneg (fmul x x)) diff)
                  w_model_std_square) (\<lambda>q.
     Inr (fsum (drop (lmin L) (map (\<lambda>x. fdiv x (Fin 2)) q))))))))))"

definition log_likelihood :: "likelihood \<Rightarrow> npfloat list \<Rightarrow> py_error + npfloat" where
  "log_likelihood L f =
     bind_res (scale_rows (slice (Ebinmin L) (Ebinmax L) (w_model_f1 L)) f) (\<lambda>m1.
     bind_res (scale_rows (slice (Ebinmin L) (Ebinmax L) (w_atm_mean L))
                  (map (\<lambda>c. fsub (Fin 1) c) f)) (\<lambda>m2.
     bind_res (mat_iop fadd m1 m2) (\<lambda>w_model_mean.
     let w_model_std_square = map (map (\<lambda>s. s ^ 2)) (slice (Ebinmin L) (Ebinmax L) (w_std L)) in
     bind_res (mat_binop (\<lambda>x y. fsub (Fin x) y)
                  (slice (Ebinmin L) (Ebinmax L) (w_data L)) w_model_mean) (\<lambda>diff.
     bind_res (mat_binop (\<lambda>x v. fdiv x (Fin v)) (map (map (\<lambda>x. fneg (fmul x x))) diff)
                  w_model_std_square) (\<lambda>q.
     Inr (fsum (concat (map (\<lambda>r. drop (lmin L) (map (\<lambda>x. fdiv x (Fin 2)) r)) q))))))))"

definition chi_square_Ebin :: "likelihood \<Rightarrow> npfloat \<Rightarrow> nat \<Rightarrow> py_error + npfloat" where
  "chi_square_Ebin L f energyBin =
     bind_res (row (w_model_f1 L) energyBin) (\<lambda>s.
     bind_res (row (w_atm_mean L) energyBin) (\<lambda>b.
     bind_res (np_iop fadd (map (\<lambda>x. fmul (Fin x) f) s)
                  (map (\<lambda>x. fmul (Fin x) (fsub (Fin 1) f)) b)) (\<lambda>w_model_mean.
     bind_res (row (w_std_square L) energyBin) (\<lambda>w_model_std_square.
     bind_res (row (w_data L) energyBin) (\<lambda>d.
     bind_res (np_binop (\<lambda>x y. fsub (Fin x) y) d w_model_mean) (\<lambda>diff.
     bind_res (np_binop (\<lambda>x v. fdiv x (Fin v)) (map (\<lambda>x. fmul x x) diff)
                  w_model_std_square) (\<lambda>chisquare.
     Inr (fsum (drop (lmin L) chisquare)))))))))"

text \<open>The body of the loop of \<open>minimize__lnL_analytic\<close> for one energy bin.\<close>

definition analytic_f :: "likelihood \<Rightarrow> nat \<Rightarrow> py_error + npfloat" where
  "analytic_f L ebin =
     bind_res (map_res (drop (lmin L)) (row (w_model_f1 L) ebin)) (\<lambda>cgg.
     bind_res (map_res (drop (lmin L)) (row (w_data L) ebin)) (\<lambda>cgnu.
     bind_res (map_res (drop (lmin L)) (row (w_atm_mean L) ebin)) (\<lambda>cgatm.
     bind_res (map_res (drop (lmin L)) (row (w_std L) ebin)) (\<lambda>cstd.
     bind_res (np_binop (\<lambda>x y. x - y) cgg cgatm) (\<lambda>sb.
     bind_res (np_binop (\<lambda>x y. x - y) cgnu cgatm) (\<lambda>db.
     bind_res (np_binop (\<lambda>x y. x * y) sb db) (\<lambda>prod.
     bind_res (np_binop (\<lambda>x v. fdiv (Fin x) (Fin v)) prod (map (\<lambda>s. s ^ 2) cstd)) (\<lambda>num.
     bind_res (np_binop (\<lambda>x v. fdiv (Fin x) (Fin v)) (map (\<lambda>x. x ^ 2) sb)
                  (map (\<lambda>s. s ^ 2) cstd)) (\<lambda>den.
     Inr (fdiv (fsum num) (fsum den)))))))))))"

definition minimize__lnL_analytic :: "likelihood \<Rightarrow> py_error + (npfloat list \<times> npfloat)" where
  "minimize__lnL_analytic L =
     (if Ebinmax L < Ebinmin L then Inl ValueError
      else
        let len_f = Ebinmax L - Ebinmin L in
        bind_res (collect (map (analytic_f L) [Ebinmin L..<Ebinmax L])) (\<lambda>f.
        bind_res (log_likelihood L f) (\<lambda>lf.
        bind_res (log_likelihood L (replicate len_f (Fin 0))) (\<lambda>l0.
        Inr (f, fmul (Fin 2) (fsub lf l0))))))"


definition log_prior :: "npfloat list \<Rightarrow> py_error + npfloat" where
  "log_prior f =
     bind_res (np_min f) (\<lambda>lo.
       if fless (Fin (- 4)) lo
       then bind_res (np_max f) (\<lambda>hi. if fless hi (Fin 4) then Inr (Fin 0) else Inr NInf)
       else Inr NInf)"

definition log_probability :: "likelihood \<Rightarrow> npfloat list \<Rightarrow> py_error + npfloat" where
  "log_probability L f =
     bind_res (log_prior f) (\<lambda>lp.
       if \<not> isfinite lp then Inr NInf
       else bind_res (log_likelihood L f) (\<lambda>ll. Inr (fadd lp ll)))"

section \<open>Significance\<close>

text \<open>
  \<open>significance\<close> composes two functions of the statistics library, which are parameters
  here: \<open>chi2_sf\<close> (\<open>scipy.stats.distributions.chi2.sf\<close>, a probability) and
  \<open>norm_isf\<close> (\<open>scipy.stats.norm.isf\<close>).
\<close>

definition significance ::
  "(real \<Rightarrow> nat \<Rightarrow> real) \<Rightarrow> (real \<Rightarrow> npfloat) \<Rightarrow> real \<Rightarrow> nat \<Rightarrow> npfloat" where
  "significance chi2_sf norm_isf chi_square dof =
     (let p_value = chi2_sf chi_square dof in norm_isf (p_value / 2))"

definition significance_from_chi ::
  "(real \<Rightarrow> nat \<Rightarrow> real) \<Rightarrow> (real \<Rightarrow> npfloat) \<Rightarrow> real list \<Rightarrow> npfloat" where
  "significance_from_chi chi2_sf norm_isf chi =
     (let chi2 = map (\<lambda>c. c * c) chi; dof = length chi2
      in significance chi2_sf norm_isf (sum_list chi2) dof)"

text \<open>The pixels that \<open>idx_mask\<close> holds: those covered by one of the two masks.\<close>

definition masked_pixels :: "nat \<Rightarrow> nat list \<Rightarrow> nat list \<Rightarrow> nat list" where
  "masked_pixels NPIXEL idx_muon idx_galaxymask =
     filter (\<lambda>i. i \<in> set idx_muon \<or> i \<in> set idx_galaxymask) [0..<NPIXEL]"

section \<open>The likelihood engine of \<open>BeamLikelihood.py\<close>\<close>

text \<open>
  The attributes of a \<open>BeamLikelihood\<close> object that the likelihood functions read, after the
  constructor and \<open>inputData\<close>. The constructor sets \<open>w_model_f1\<close> to the binned
  autocorrelation spectrum of the galaxy sample, the second array that \<open>bin_llcl\<close> returns:
  a one-dimensional array over the multipole bins, from whose size the constructor takes the
  number of columns of \<open>w_atm_mean\<close>. The arrays \<open>w_atm_mean\<close>, \<open>w_data\<close> and
  \<open>w_std\<close> are indexed by energy bin, then by multipole bin, and \<open>w_cov\<close> holds one
  covariance matrix for every energy bin; \<open>lbin\<close> is the width of a multipole bin. The
  fields carry the suffix \<open>_beam\<close>, the plain names being those of the record of
  \<open>Likelihood.py\<close>.
\<close>

record beam_likelihood =
  Ebinmin_beam :: nat
  Ebinmax_beam :: nat
  lmin_beam :: nat
  lbin_beam :: nat
  w_model_f1_beam :: "real list"
  w_atm_mean_beam :: "real list list"
  w_data_beam :: "real list list"
  w_cov_beam :: "real list list list"
  w_std_beam :: "real list list"

text \<open>
  \<open>int(self.lmin / self.lbin)\<close>, the first multipole bin that enters the likelihood; the
  division raises \<open>ZeroDivisionError\<close> for \<open>lbin = 0\<close>.
\<close>

definition binned_lmin :: "beam_likelihood \<Rightarrow> py_error + nat" where
  "binned_lmin B =
     (if lbin_beam B = 0 then Inl ZeroDivisionError else Inr (lmin_beam B div lbin_beam B))"

text \<open>
  \<open>w_cov[energyBin, lmin:, lmin:] * np.identity(n)\<close>: the elementwise product with the
  identity matrix keeps the diagonal of the block and sets every other entry to zero, so the
  result is given by its diagonal. The block and the identity matrix must have one shape; the
  arrays of \<open>inputData\<close> do, since \<open>w_cov\<close> has as many rows and columns as
  \<open>w_data\<close> has columns.
\<close>

definition diagonal_block :: "real list list \<Rightarrow> nat \<Rightarrow> nat \<Rightarrow> py_error + real list" where
  "diagonal_block cov l n =
     (let block = map (drop l) (drop l cov) in
      if length block = n \<and> list_all (\<lambda>r. length r = n) block
      then Inr (map (\<lambda>i. block ! i ! i) [0..<n])
      else Inl ValueError)"

text \<open>
  \<open>log_likelihood_Ebin\<close>. The parameter \<open>logpdf\<close> is
  \<open>scipy.stats.multivariate_normal.logpdf\<close>: \<open>logpdf x mean var\<close> is its result at
  \<open>x\<close> for the mean \<open>mean\<close> and the diagonal covariance matrix with the diagonal
  \<open>var\<close>.
\<close>

definition beam_log_likelihood_Ebin ::
  "(real list \<Rightarrow> npfloat list \<Rightarrow> real list \<Rightarrow> py_error + npfloat)
     \<Rightarrow> beam_likelihood \<Rightarrow> npfloat \<Rightarrow> nat \<Rightarrow> py_error + npfloat" where
  "beam_log_likelihood_Ebin logpdf B f energyBin =
     bind_res (binned_lmin B) (\<lambda>lmin'.
     bind_res (map_res (drop lmin') (row (w_data_beam B) energyBin)) (\<lambda>w_data.
     bind_res (map_res (drop lmin') (row (w_atm_mean_beam B) energyBin)) (\<lambda>b.
     bind_res (np_iop fadd (map (\<lambda>x. fmul (Fin x) f) (drop lmin' (w_model_f1_beam B)))
                  (map (\<lambda>x. fmul (Fin x) (fsub (Fin 1) f)) b)) (\<lambda>w_model_mean.
     bind_res (row (w_cov_beam B) energyBin) (\<lambda>cov.
     bind_res (diagonal_block cov lmin' (length w_data)) (\<lambda>w_cov.
     logpdf w_data w_model_mean w_cov))))))"

text \<open>
  \<open>log_likelihood\<close>: the loop over \<open>enumerate(range(Ebinmin, Ebinmax))\<close> with the
  accumulator \<open>lnL_le\<close>, which starts at \<open>0\<close>.
\<close>

fun beam_log_likelihood_loop ::
  "(real list \<Rightarrow> npfloat list \<Rightarrow> real list \<Rightarrow> py_error + npfloat)
     \<Rightarrow> beam_likelihood \<Rightarrow> nat \<Rightarrow> npfloat list \<Rightarrow> npfloat \<Rightarrow> (nat \<times> nat) list
     \<Rightarrow> py_error + npfloat" where
  "beam_log_likelihood_loop logpdf B lmin' f lnL_le [] = Inr lnL_le"
| "beam_log_likelihood_loop logpdf B lmin' f lnL_le ((i, ebin) # rest) =
     bind_res (map_res (drop lmin') (row (w_data_beam B) ebin)) (\<lambda>w_data.
     bind_res (row f i) (\<lambda>fi.
     bind_res (map_res (drop lmin') (row (w_atm_mean_beam B) ebin)) (\<lambda>b.
     bind_res (np_iop fadd (map (\<lambda>x. fmul (Fin x) fi) (drop lmin' (w_model_f1_beam B)))
                  (map (\<lambda>x. fmul (Fin x) (fsub (Fin 1) fi)) b)) (\<lambda>w_model_mean.
     bind_res (row (w_cov_beam B) ebin) (\<lambda>cov.
     bind_res (diagonal_block cov lmin' (length w_data)) (\<lambda>w_cov.
     bind_res (logpdf w_data w_model_mean w_cov) (\<lambda>v.
     beam_log_likelihood_loop logpdf B lmin' f (fadd lnL_le v) rest)))))))"

definition beam_log_likelihood ::
  "(real list \<Rightarrow> npfloat list \<Rightarrow> real list \<Rightarrow> py_error + npfloat)
     \<Rightarrow> beam_likelihood \<Rightarrow> npfloat list \<Rightarrow> py_error + npfloat" where
  "beam_log_likelihood logpdf B f =
     bind_res (binned_lmin B) (\<lambda>lmin'.
       beam_log_likelihood_loop logpdf B lmin' f (Fin 0)
         (zip [0..<Ebinmax_beam B - Ebinmin_beam B] [Ebinmin_beam B..<Ebinmax_beam B]))"

text \<open>\<open>chi_square_Ebin\<close> returns \<open>-2 * self.log_likelihood_Ebin(f, energyBin)\<close>.\<close>

definition beam_chi_square_Ebin ::
  "(real list \<Rightarrow> npfloat list \<Rightarrow> real list \<Rightarrow> py_error + npfloat)
     \<Rightarrow> beam_likelihood \<Rightarrow> npfloat \<Rightarrow> nat \<Rightarrow> py_error + npfloat" where
  "beam_chi_square_Ebin logpdf B f energyBin =
     map_res (fmul (Fin (- 2))) (beam_log_likelihood_Ebin logpdf B f energyBin)"

text \<open>
  \<open>a[i, j:]\<close> for a one-dimensional array \<open>a\<close>: numpy raises \<open>IndexError\<close>
  for too many indices, whatever the indices are.
\<close>

definition too_many_indices :: "real list \<Rightarrow> nat \<Rightarrow> nat \<Rightarrow> py_error + real list" where
  "too_many_indices a i j = Inl IndexError"

text \<open>
  The body of the loop of \<open>minimize__lnL_analytic\<close> for one energy bin. It is the body of
  \<open>Likelihood.py\<close>, statement by statement: it reads \<open>w_model_f1[ebin, self.lmin:]\<close>,
  with two indices, and cuts every array at \<open>self.lmin\<close>, not at
  \<open>int(self.lmin / self.lbin)\<close>.
\<close>

definition beam_analytic_f :: "beam_likelihood \<Rightarrow> nat \<Rightarrow> py_error + npfloat" where
  "beam_analytic_f B ebin =
     bind_res (too_many_indices (w_model_f1_beam B) ebin (lmin_beam B)) (\<lambda>cgg.
     bind_res (map_res (drop (lmin_beam B)) (row (w_data_beam B) ebin)) (\<lambda>cgnu.
     bind_res (map_res (drop (lmin_beam B)) (row (w_atm_mean_beam B) ebin)) (\<lambda>cgatm.
     bind_res (map_res (drop (lmin_beam B)) (row (w_std_beam B) ebin)) (\<lambda>cstd.
     bind_res (np_binop (\<lambda>x y. x - y) cgg cgatm) (\<lambda>sb.
     bind_res (np_binop (\<lambda>x y. x - y) cgnu cgatm) (\<lambda>db.
     bind_res (np_binop (\<lambda>x y. x * y) sb db) (\<lambda>prod.
     bind_res (np_binop (\<lambda>x v. fdiv (Fin x) (Fin v)) prod (map (\<lambda>s. s ^ 2) cstd)) (\<lambda>num.
     bind_res (np_binop (\<lambda>x v. fdiv (Fin x) (Fin v)) (map (\<lambda>x. x ^ 2) sb)
                  (map (\<lambda>s. s ^ 2) cstd)) (\<lambda>den.
     Inr (fdiv (fsum num) (fsum den)))))))))))"

definition beam_minimize__lnL_analytic ::
  "(real list \<Rightarrow> npfloat list \<Rightarrow> real list \<Rightarrow> py_error + npfloat)
     \<Rightarrow> beam_likelihood \<Rightarrow> py_error + (npfloat list \<times> npfloat)" where
  "beam_minimize__lnL_analytic logpdf B =
     (if Ebinmax_beam B < Ebinmin_beam B then Inl ValueError
      else
        let len_f = Ebinmax_beam B - Ebinmin_beam B in
        bind_res (collect (map (beam_analytic_f B) [Ebinmin_beam B..<Ebinmax_beam B])) (\<lambda>f.
        bind_res (beam_log_likelihood logpdf B f) (\<lambda>lf.
        bind_res (beam_log_likelihood logpdf B (replicate len_f (Fin 0))) (\<lambda>l0.
        Inr (f, fmul (Fin 2) (fsub lf l0))))))"

section \<open>Shapes and the contribution of one multipole\<close>

text \<open>
  The constructor reshapes every template to \<open>(NEbin, NCL)\<close> and \<open>inputData\<close> sets
  \<open>w_std_square\<close> to the squares of \<open>w_std\<close>. \<open>engine_state r c L\<close> says that the arrays
  of \<open>L\<close> have \<open>r\<close> rows of \<open>c\<close> entries and that \<open>w_std_square\<close> holds these squares.
\<close>

definition has_shape :: "nat \<Rightarrow> nat \<Rightarrow> 'a list list \<Rightarrow> bool" where
  "has_shape r c A \<longleftrightarrow> length A = r \<and> list_all (\<lambda>row. length row = c) A"

definition engine_state :: "nat \<Rightarrow> nat \<Rightarrow> likelihood \<Rightarrow> bool" where
  "engine_state r c L \<longleftrightarrow>
     has_shape r c (w_model_f1 L) \<and> has_shape r c (w_atm_mean L) \<and> has_shape r c (w_data L)
     \<and> has_shape r c (w_std L) \<and> w_std_square L = map (map (\<lambda>s. s ^ 2)) (w_std L)"

text \<open>
  What the array expression of \<open>log_likelihood_Ebin\<close> computes at one multipole, from the
  fraction \<open>f\<close>, the signal \<open>s\<close>, the background \<open>b\<close>, the datum \<open>d\<close> and the variance \<open>v\<close>.
\<close>

definition lnL_term :: "npfloat \<Rightarrow> real \<Rightarrow> real \<Rightarrow> real \<Rightarrow> real \<Rightarrow> npfloat" where
  "lnL_term f s b d v =
     (let x = fsub (Fin d) (fadd (fmul (Fin s) f) (fmul (Fin b) (fsub (Fin 1) f)))
      in fdiv (fdiv (fneg (fmul x x)) (Fin v)) (Fin 2))"


section \<open>The closed form of the specification\<close>

text \<open>
  The words of the specification: the expected spectrum is \<open>f * signal + (1 - f) * background\<close>,
  and the logarithm of the multivariate normal density with a diagonal covariance (the variances
  \<open>var\<close>) at \<open>x\<close> with mean \<open>mu\<close> is the normalisation term
  \<open>- 1/2 * (\<Sum>i. ln (2 * pi * var i))\<close> minus half of the sum of the squared residuals over the
  variances. \<open>closed_form_log_density L f bin\<close> is that density for the bin, restricted to the
  multipoles from \<open>lmin\<close>. \<open>Likelihood.py\<close> holds one variance per multipole, so its
  covariance is diagonal.
\<close>

definition mixture_mean :: "real \<Rightarrow> real list \<Rightarrow> real list \<Rightarrow> real list" where
  "mixture_mean f signal background = map2 (\<lambda>s b. f * s + (1 - f) * b) signal background"

definition mvn_log_normalization :: "real list \<Rightarrow> real" where
  "mvn_log_normalization var = - (1 / 2) * (\<Sum>i\<leftarrow>[0..<length var]. ln (2 * pi * var ! i))"

definition mvn_logpdf_diag :: "real list \<Rightarrow> real list \<Rightarrow> real list \<Rightarrow> real" where
  "mvn_logpdf_diag x mu var =
     mvn_log_normalization var - (1 / 2) * (\<Sum>i\<leftarrow>[0..<length x]. (x ! i - mu ! i) ^ 2 / var ! i)"


text \<open>
  The closed form of the optimiser in the words of the specification: for one bin, the ratio of
  \<open>\<Sum>l. (S l - B l) * (D l - B l) / sigma l ^ 2\<close> to \<open>\<Sum>l. (S l - B l) ^ 2 / sigma l ^ 2\<close>
  over the multipoles from \<open>lmin\<close>, for the signal \<open>S\<close>, the background \<open>B\<close>, the data
  \<open>D\<close> and the standard deviation \<open>sigma\<close> of the bin; and the diagonal-Gaussian
  log-likelihood of a bin as a function of the fraction \<open>f\<close>,
  \<open>- 1/2 * (\<Sum>l. (D l - (f * S l + (1 - f) * B l)) ^ 2 / sigma l ^ 2)\<close>.
  \<open>analytic_fhat\<close> collects the ratios of the active bins, \<open>gaussian_log_likelihood\<close> sums
  the log-likelihoods of the active bins for a vector of fractions, and a bin is
  \<open>nondegenerate_bin\<close> when its standard deviations from \<open>lmin\<close> are non-zero and the
  denominator of the ratio is non-zero.
\<close>

definition fhat_numerator :: "likelihood \<Rightarrow> nat \<Rightarrow> real" where
  "fhat_numerator L bin =
     (\<Sum>l\<leftarrow>[lmin L..<length (w_data L ! bin)].
        (w_model_f1 L ! bin ! l - w_atm_mean L ! bin ! l)
        * (w_data L ! bin ! l - w_atm_mean L ! bin ! l) / (w_std L ! bin ! l) ^ 2)"

definition fhat_denominator :: "likelihood \<Rightarrow> nat \<Rightarrow> real" where
  "fhat_denominator L bin =
     (\<Sum>l\<leftarrow>[lmin L..<length (w_data L ! bin)].
        (w_model_f1 L ! bin ! l - w_atm_mean L ! bin ! l) ^ 2 / (w_std L ! bin ! l) ^ 2)"

definition closed_form_fhat :: "likelihood \<Rightarrow> nat \<Rightarrow> real" where
  "closed_form_fhat L bin = fhat_numerator L bin / fhat_denominator L bin"

definition gaussian_bin_log_likelihood :: "likelihood \<Rightarrow> real \<Rightarrow> nat \<Rightarrow> real" where
  "gaussian_bin_log_likelihood L f bin =
     - (1 / 2) * (\<Sum>l\<leftarrow>[lmin L..<length (w_data L ! bin)].
        (w_data L ! bin ! l - (f * w_model_f1 L ! bin ! l + (1 - f) * w_atm_mean L ! bin ! l)) ^ 2
        / (w_std L ! bin ! l) ^ 2)"

definition analytic_fhat :: "likelihood \<Rightarrow> real list" where
  "analytic_fhat L = map (closed_form_fhat L) [Ebinmin L..<Ebinmax L]"

definition gaussian_log_likelihood :: "likelihood \<Rightarrow> real list \<Rightarrow> real" where
  "gaussian_log_likelihood L fs =
     (\<Sum>j\<leftarrow>[0..<Ebinmax L - Ebinmin L]. gaussian_bin_log_likelihood L (fs ! j) (Ebinmin L + j))"

definition nondegenerate_bin :: "likelihood \<Rightarrow> nat \<Rightarrow> bool" where
  "nondegenerate_bin L bin \<longleftrightarrow>
     list_all (\<lambda>s. s \<noteq> 0) (drop (lmin L) (w_std L ! bin)) \<and> fhat_denominator L bin \<noteq> 0"

section \<open>Library functions and states used at concrete inputs\<close>


definition chi2_sf_two_double :: "real \<Rightarrow> real" where
  "chi2_sf_two_double x =
     (if x \<le> 0 then 1 else if exp (- x / 2) < 1 / 2 ^ 1075 then 0 else exp (- x / 2))"

text \<open>
  An inverse survival function with the boundary values of \<open>norm.isf\<close> (\<open>inf\<close> at
  \<open>0\<close>, \<open>-inf\<close> at \<open>1\<close>, \<open>nan\<close> outside \<open>[0, 1]\<close>), zero at \<open>1 / 2\<close> and
  strictly decreasing in between. The normal quantile has no closed form; the logistic quantile
  stands in for it inside \<open>(0, 1)\<close>.
\<close>

definition isf_boundary :: "real \<Rightarrow> npfloat" where
  "isf_boundary q =
     (if q = 0 then PInf else if q = 1 then NInf
      else if 0 < q \<and> q < 1 then Fin (ln ((1 - q) / q)) else NaN)"

text \<open>A state of shape \<open>(NEbin, NCL) = (3, 384)\<close> whose three energy bins are all active.\<close>

definition three_bin_state :: likelihood where
  "three_bin_state =
     \<lparr>Ebinmin = 0, Ebinmax = 3, lmin = 0,
      w_model_f1 = replicate 3 (replicate 384 0),
      w_atm_mean = replicate 3 (replicate 384 0),
      w_atm_std = None, w_atm_std_square = None,
      w_data = replicate 3 (replicate 384 0),
      w_std = replicate 3 (replicate 384 1),
      w_std_square = replicate 3 (replicate 384 1)\<rparr>"

text \<open>
  The end-to-end example of the specification in the shape of the program: one active energy
  bin, multipoles from \<open>lmin = 50\<close>, background mean \<open>0\<close> with standard deviation \<open>1\<close>,
  signal mean \<open>5\<close>; \<open>example_state d\<close> has the constant \<open>d\<close> as data.
\<close>

definition example_state :: "real \<Rightarrow> likelihood" where
  "example_state d =
     \<lparr>Ebinmin = 0, Ebinmax = 1, lmin = 50,
      w_model_f1 = replicate 3 (replicate 384 5),
      w_atm_mean = replicate 3 (replicate 384 0),
      w_atm_std = Some (replicate 3 (replicate 384 1)),
      w_atm_std_square = Some (replicate 3 (replicate 384 1)),
      w_data = replicate 3 (replicate 384 d),
      w_std = replicate 3 (replicate 384 1),
      w_std_square = replicate 3 (replicate 384 1)\<rparr>"



text \<open>
  The logarithm of the normal density with a diagonal covariance as
  \<open>scipy.stats.multivariate_normal.logpdf\<close> returns it, in exact arithmetic: a negative
  variance is refused with \<open>ValueError\<close> (the matrix is not positive semidefinite), a zero
  variance with \<open>LinAlgError\<close> (the matrix is singular), and so are arguments whose sizes
  differ or are zero.
\<close>

definition diag_normal_logpdf :: "real list \<Rightarrow> npfloat list \<Rightarrow> real list \<Rightarrow> py_error + npfloat" where
  "diag_normal_logpdf x mean var =
     (if var = [] \<or> length x \<noteq> length var \<or> length mean \<noteq> length var then Inl ValueError
      else if list_ex (\<lambda>v. v < 0) var then Inl ValueError
      else if list_ex (\<lambda>v. v = 0) var then Inl LinAlgError
      else Inr (fmul (Fin (- (1 / 2)))
             (fadd (Fin (\<Sum>v\<leftarrow>var. ln (2 * pi * v)))
                (fsum (map (\<lambda>i. let d = fsub (Fin (x ! i)) (mean ! i)
                                 in fdiv (fmul d d) (Fin (var ! i))) [0..<length var])))))"

text \<open>
  A \<open>BeamLikelihood\<close> state in the shape that the constructor and \<open>inputData\<close> give for
  \<open>lbin = 4\<close>: 95 multipole bins, three energy bins of which the first is active, signal
  \<open>5\<close>, background \<open>0\<close>, data equal to the background, unit variances.
\<close>

definition beam_example :: beam_likelihood where
  "beam_example =
     \<lparr>Ebinmin_beam = 0, Ebinmax_beam = 1, lmin_beam = 50, lbin_beam = 4,
      w_model_f1_beam = replicate 95 5,
      w_atm_mean_beam = replicate 3 (replicate 95 0),
      w_data_beam = replicate 3 (replicate 95 0),
      w_cov_beam = replicate 3 (replicate 95 (replicate 95 1)),
      w_std_beam = replicate 3 (replicate 95 (1 / 2))\<rparr>"

section \<open>Arithmetic of the special values\<close>

lemma fadd_commute: "fadd x y = fadd y x"
  by (cases x; cases y) simp_all

lemma fadd_assoc: "fadd (fadd x y) z = fadd x (fadd y z)"
  by (cases x; cases y; cases z) simp_all

lemma fadd_zero_left [simp]: "fadd (Fin 0) x = x"
  by (cases x) simp_all

lemma fadd_zero_right [simp]: "fadd x (Fin 0) = x"
  by (cases x) simp_all

lemma fsum_Nil [simp]: "fsum [] = Fin 0"
  by (simp add: fsum_def)

lemma fsum_Cons [simp]: "fsum (x # xs) = fadd x (fsum xs)"
  by (simp add: fsum_def)

lemma fsum_append: "fsum (xs @ ys) = fadd (fsum xs) (fsum ys)"
  by (induction xs) (simp_all add: fadd_assoc)

lemma fmul_fadd: "c \<noteq> 0 \<Longrightarrow> fmul (Fin c) (fadd x y) = fadd (fmul (Fin c) x) (fmul (Fin c) y)"
  by (cases x; cases y) (simp_all add: algebra_simps)

lemma fmul_fsum: "c \<noteq> 0 \<Longrightarrow> fmul (Fin c) (fsum xs) = fsum (map (fmul (Fin c)) xs)"
  by (induction xs) (simp_all add: fmul_fadd)

section \<open>Results and broadcasting\<close>

lemma bind_res_simps [simp]:
  "bind_res (Inl e) f = Inl e" "bind_res (Inr x) f = f x"
  by (simp_all add: bind_res_def)

lemma map_res_simps [simp]:
  "map_res g (Inl e) = Inl e" "map_res g (Inr x) = Inr (g x)"
  by (simp_all add: map_res_def)

lemma map_res_bind: "map_res g (bind_res m k) = bind_res m (\<lambda>x. map_res g (k x))"
  by (cases m) simp_all

lemma map2_map_left: "map2 f (map g xs) ys = map2 (\<lambda>x y. f (g x) y) xs ys"
  by (simp add: zip_map1 split_def)

lemma hd_map_single: "length xs = Suc 0 \<Longrightarrow> hd (map g xs) = g (hd xs)"
  by (cases xs) simp_all

lemma np_binop_map_left: "np_binop f (map g xs) ys = np_binop (\<lambda>x y. f (g x) y) xs ys"
  unfolding np_binop_def by (simp add: map2_map_left hd_map_single o_def)

lemma np_binop_post:
  "bind_res (np_binop f xs ys) (\<lambda>q. k (map h q)) = bind_res (np_binop (\<lambda>x y. h (f x y)) xs ys) k"
  by (simp add: np_binop_def split_def o_def)

section \<open>The chi-square of a bin\<close>

lemma chi_term: "fmul (Fin (- 2)) (fdiv (fdiv (fneg y) (Fin v)) (Fin 2)) = fdiv y (Fin v)"
  by (cases y) auto

lemma chi_tail:
  "bind_res (np_binop (\<lambda>x v. fdiv x (Fin v)) (map (\<lambda>x. fneg (fmul x x)) diff) vs)
        (\<lambda>q. Inr (fmul (Fin (- 2)) (fsum (drop l (map (\<lambda>x. fdiv x (Fin 2)) q)))))
   = bind_res (np_binop (\<lambda>x v. fdiv x (Fin v)) (map (\<lambda>x. fmul x x) diff) vs)
        (\<lambda>q. Inr (fsum (drop l q)))"
proof -
  have "bind_res (np_binop (\<lambda>x v. fdiv (fneg (fmul x x)) (Fin v)) diff vs)
          (\<lambda>q. Inr (fsum (drop l (map (\<lambda>x. fmul (Fin (- 2)) (fdiv x (Fin 2))) q))))
      = bind_res (np_binop (\<lambda>x v. fdiv (fmul x x) (Fin v)) diff vs) (\<lambda>q. Inr (fsum (drop l q)))"
    by (simp add: np_binop_post [where k = "\<lambda>q. Inr (fsum (drop l q))"] chi_term)
  then show ?thesis
    by (simp add: np_binop_map_left fmul_fsum drop_map o_def)
qed

text \<open>
  C7 (\<open>Likelihood.py\<close>). For every state of the engine, every fraction \<open>f\<close> (finite or not)
  and every energy bin, \<open>chi_square_Ebin(f, bin)\<close> is \<open>-2\<close> times
  \<open>log_likelihood_Ebin(f, bin)\<close>; when one raises, the other raises the same error.
\<close>

theorem chi_square_Ebin_is_minus_two_log_likelihood_Ebin:
  "chi_square_Ebin L f energyBin = map_res (fmul (Fin (- 2))) (log_likelihood_Ebin L f energyBin)"
  unfolding chi_square_Ebin_def log_likelihood_Ebin_def
  by (simp add: map_res_bind chi_tail)

section \<open>The sky fraction\<close>

lemma foldl_set_length [simp]: "length (foldl (\<lambda>m i. m[i := True]) m idx) = length m"
  by (induction idx arbitrary: m) auto

lemma foldl_set_nth:
  "j < length m \<Longrightarrow> (foldl (\<lambda>m i. m[i := True]) m idx) ! j \<longleftrightarrow> m ! j \<or> j \<in> set idx"
proof (induction idx arbitrary: m)
  case Nil
  then show ?case by simp
next
  case (Cons a idx)
  have "foldl (\<lambda>m i. m[i := True]) (m[a := True]) idx ! j \<longleftrightarrow> (m[a := True]) ! j \<or> j \<in> set idx"
    using Cons.prems by (intro Cons.IH) simp
  moreover have "(m[a := True]) ! j \<longleftrightarrow> m ! j \<or> j = a"
    using Cons.prems by (cases "a = j") simp_all
  ultimately show ?case by auto
qed

lemma np_where_set_mask:
  "np_where (foldl (\<lambda>m i. m[i := True]) (foldl (\<lambda>m i. m[i := True]) (replicate n False) mu) gal)
   = filter (\<lambda>i. i \<in> set mu \<or> i \<in> set gal) [0..<n]"
  unfolding np_where_def
  by (auto intro!: filter_cong simp: foldl_set_nth)

lemma usable_compl:
  "length (filter (\<lambda>i. i \<in> set mu \<or> i \<in> set gal) [0..<n]) + length (usable_pixels n mu gal) = n"
proof -
  have "usable_pixels n mu gal = filter (\<lambda>i. \<not> (i \<in> set mu \<or> i \<in> set gal)) [0..<n]"
    by (simp add: usable_pixels_def)
  then show ?thesis
    using sum_length_filter_compl [of "\<lambda>i. i \<in> set mu \<or> i \<in> set gal" "[0..<n]"] by simp
qed

lemma anafastMask_run:
  assumes "list_all (\<lambda>i. i < NPIXEL) idx_muon" "list_all (\<lambda>i. i < NPIXEL) idx_galaxymask"
    and "0 < NPIXEL"
  shows "anafastMask NPIXEL idx_muon idx_galaxymask =
     Inr (filter (\<lambda>i. i \<in> set idx_muon \<or> i \<in> set idx_galaxymask) [0..<NPIXEL],
          real (length (usable_pixels NPIXEL idx_muon idx_galaxymask)) / real NPIXEL)"
proof -
  let ?masked = "filter (\<lambda>i. i \<in> set idx_muon \<or> i \<in> set idx_galaxymask) [0..<NPIXEL]"
  have "real (length ?masked) + real (length (usable_pixels NPIXEL idx_muon idx_galaxymask)) = real NPIXEL"
    using usable_compl [of idx_muon idx_galaxymask NPIXEL] by linarith
  then have "1 - real (length ?masked) / real NPIXEL
     = real (length (usable_pixels NPIXEL idx_muon idx_galaxymask)) / real NPIXEL"
    using assms(3) by (simp add: field_simps)
  then show ?thesis
    using assms by (simp add: anafastMask_def set_mask_def np_where_set_mask Let_def)
qed

lemma upt_12: "[0..<12] = [0, 1, 2, 3, 4, 5, 6, 7, 8, 9, 10, 11]"
  by (simp add: upt_rec)

text \<open>
  C2, as amended. For pixel indices within the map and at least one pixel, \<open>anafastMask\<close>
  sets \<open>idx_mask\<close> to the masked pixels (those of the detector mask or of the galaxy mask)
  and \<open>f_sky\<close> to one minus the masked share of the pixels, which is the usable share
  (usable pixel count over total pixel count); an all-masked sky gives \<open>f_sky = 0\<close>.
\<close>

theorem anafastMask_sky_fraction:
  assumes "list_all (\<lambda>i. i < NPIXEL) idx_muon" "list_all (\<lambda>i. i < NPIXEL) idx_galaxymask"
    and "0 < NPIXEL"
  shows "anafastMask NPIXEL idx_muon idx_galaxymask =
           Inr (masked_pixels NPIXEL idx_muon idx_galaxymask,
                1 - real (length (masked_pixels NPIXEL idx_muon idx_galaxymask)) / real NPIXEL)
         \<and> 1 - real (length (masked_pixels NPIXEL idx_muon idx_galaxymask)) / real NPIXEL
             = real (length (usable_pixels NPIXEL idx_muon idx_galaxymask)) / real NPIXEL
         \<and> (usable_pixels NPIXEL idx_muon idx_galaxymask = [] \<longrightarrow>
              anafastMask NPIXEL idx_muon idx_galaxymask =
                Inr (masked_pixels NPIXEL idx_muon idx_galaxymask, 0))"
proof -
  let ?m = "masked_pixels NPIXEL idx_muon idx_galaxymask"
  let ?u = "usable_pixels NPIXEL idx_muon idx_galaxymask"
  have "real (length ?m) + real (length ?u) = real NPIXEL"
    using usable_compl [of idx_muon idx_galaxymask NPIXEL] unfolding masked_pixels_def by linarith
  then have eq: "1 - real (length ?m) / real NPIXEL = real (length ?u) / real NPIXEL"
    using assms(3) by (simp add: field_simps)
  have run: "anafastMask NPIXEL idx_muon idx_galaxymask = Inr (?m, real (length ?u) / real NPIXEL)"
    using anafastMask_run [OF assms] by (simp add: masked_pixels_def)
  show ?thesis using eq run by simp
qed

theorem anafastMask_sky_fraction_witness:
  "list_all (\<lambda>i. i < 12) [6, 7, 8, 9, 10, 11 :: nat]
   \<and> list_all (\<lambda>i. i < 12) [0, 1, 2, 3, 4, 5 :: nat]
   \<and> usable_pixels 12 [6, 7, 8, 9, 10, 11] [0, 1, 2, 3, 4, 5] = []
   \<and> anafastMask 12 [6, 7, 8, 9, 10, 11] [0, 1, 2, 3, 4, 5]
       = Inr ([0, 1, 2, 3, 4, 5, 6, 7, 8, 9, 10, 11], 0)"
  using anafastMask_sky_fraction [of 12 "[6, 7, 8, 9, 10, 11]" "[0, 1, 2, 3, 4, 5]"]
  by (simp add: usable_pixels_def masked_pixels_def upt_12)

text \<open>
  The claim as stated fails: with twelve pixels of which five are masked, \<open>f_sky\<close> is
  \<open>7 / 12\<close>, while one minus the usable share is \<open>5 / 12\<close>.
\<close>

theorem anafastMask_not_one_minus_usable_share:
  "anafastMask 12 [8, 9, 10, 11] [0, 8] = Inr ([0, 8, 9, 10, 11], 7 / 12)
   \<and> 1 - real (length (usable_pixels 12 [8, 9, 10, 11] [0, 8])) / real 12 = 5 / 12"
  using anafastMask_run [of 12 "[8, 9, 10, 11]" "[0, 8]"]
  by (simp add: usable_pixels_def upt_12)

section \<open>The prior and the posterior\<close>

lemma fless_fmin2: "fless (Fin c) (fmin2 x y) \<longleftrightarrow> fless (Fin c) x \<and> fless (Fin c) y"
  by (cases x; cases y) (auto simp: fmin2_def)

lemma fless_fmax2: "fless (fmax2 x y) (Fin c) \<longleftrightarrow> fless x (Fin c) \<and> fless y (Fin c)"
  by (cases x; cases y) (auto simp: fmax2_def)

lemma fless_foldl_fmin2:
  "fless (Fin c) (foldl fmin2 x ys) \<longleftrightarrow> fless (Fin c) x \<and> list_all (fless (Fin c)) ys"
  by (induction ys arbitrary: x) (auto simp: fless_fmin2)

lemma fless_foldl_fmax2:
  "fless (foldl fmax2 x ys) (Fin c) \<longleftrightarrow> fless x (Fin c) \<and> list_all (\<lambda>y. fless y (Fin c)) ys"
  by (induction ys arbitrary: x) (auto simp: fless_fmax2)

lemma log_prior_box:
  "f \<noteq> [] \<Longrightarrow>
   log_prior f =
     Inr (if list_all (\<lambda>x. fless (Fin (- 4)) x \<and> fless x (Fin 4)) f then Fin 0 else NInf)"
  by (cases f) (auto simp: log_prior_def np_min_def np_max_def fless_foldl_fmin2 fless_foldl_fmax2
      list_all_iff)

lemma three_bin_state_rejects_two_fractions:
  "log_likelihood three_bin_state [Fin 5, Fin 0] = Inl ValueError"
  by (simp add: log_likelihood_def three_bin_state_def scale_rows_def slice_def)

text \<open>
  C9. For every non-empty parameter vector \<open>f\<close>, \<open>log_prior f\<close> is \<open>0\<close> when every
  coordinate lies strictly between \<open>-4\<close> and \<open>4\<close> and \<open>-inf\<close> otherwise. In the latter
  case \<open>log_probability\<close> returns \<open>-inf\<close> for every state of the engine, also for one on
  which \<open>log_likelihood\<close> would raise: the likelihood is not evaluated. In the former case
  \<open>log_probability\<close> is \<open>log_likelihood\<close>.
\<close>

theorem log_prior_box_and_short_circuit:
  assumes "f \<noteq> []"
  shows "log_prior f =
           Inr (if list_all (\<lambda>x. fless (Fin (- 4)) x \<and> fless x (Fin 4)) f then Fin 0 else NInf)
         \<and> (\<not> list_all (\<lambda>x. fless (Fin (- 4)) x \<and> fless x (Fin 4)) f \<longrightarrow>
              log_probability L f = Inr NInf)
         \<and> (list_all (\<lambda>x. fless (Fin (- 4)) x \<and> fless x (Fin 4)) f \<longrightarrow>
              log_probability L f = log_likelihood L f)"
proof -
  have p: "log_prior f =
      Inr (if list_all (\<lambda>x. fless (Fin (- 4)) x \<and> fless x (Fin 4)) f then Fin 0 else NInf)"
    using assms by (rule log_prior_box)
  have "log_probability L f = log_likelihood L f"
    if "list_all (\<lambda>x. fless (Fin (- 4)) x \<and> fless x (Fin 4)) f"
    using that p by (cases "log_likelihood L f") (simp_all add: log_probability_def)
  moreover have "log_probability L f = Inr NInf"
    if "\<not> list_all (\<lambda>x. fless (Fin (- 4)) x \<and> fless x (Fin 4)) f"
    using that p by (simp add: log_probability_def)
  ultimately show ?thesis using p by blast
qed

theorem log_prior_box_and_short_circuit_witness:
  "[Fin 5, Fin 0] \<noteq> [] \<and> log_prior [Fin 5, Fin 0] = Inr NInf
   \<and> log_likelihood three_bin_state [Fin 5, Fin 0] = Inl ValueError
   \<and> log_probability three_bin_state [Fin 5, Fin 0] = Inr NInf"
  using log_prior_box_and_short_circuit [of "[Fin 5, Fin 0]" three_bin_state]
    three_bin_state_rejects_two_fractions
  by simp

section \<open>Significance\<close>

lemma exp_minus_2000_underflows: "exp (- 4000 / 2) < (1::real) / 2 ^ 1075"
proof -
  have "(2::real) ^ 1075 < 2 ^ 2000" by simp
  also have "\<dots> \<le> (exp 1) ^ 2000"
    by (rule power_mono) (use exp_ge_add_one_self [of "1::real"] in simp_all)
  also have "\<dots> = exp (2000::real)"
    by (simp add: exp_of_nat_mult [symmetric])
  finally have "(2::real) ^ 1075 < exp 2000" .
  then have "1 / exp (2000::real) < 1 / 2 ^ 1075"
    by (simp add: field_simps)
  then show ?thesis by (simp add: exp_minus field_simps)
qed

lemma chi2_sf_two_double_underflow: "chi2_sf_two_double 4000 = 0"
  using exp_minus_2000_underflows by (simp add: chi2_sf_two_double_def)


text \<open>
  C4, as amended. When the chi-square survival probability underflows to \<open>0\<close>,
  \<open>significance\<close> returns what \<open>norm.isf\<close> returns at \<open>0\<close>, which is \<open>inf\<close>: the
  function has no cap and no sentinel.
\<close>

theorem significance_underflow_is_infinite:
  "norm_isf 0 = PInf \<Longrightarrow> chi2_sf chi_square dof = 0 \<Longrightarrow>
   significance chi2_sf norm_isf chi_square dof = PInf"
  by (simp add: significance_def)

theorem significance_underflow_is_infinite_witness:
  "isf_boundary 0 = PInf \<and> chi2_sf_two_double 4000 = 0
   \<and> significance (\<lambda>x dof. chi2_sf_two_double x) isf_boundary 4000 2 = PInf"
  using significance_underflow_is_infinite
          [of isf_boundary "\<lambda>x dof. chi2_sf_two_double x" 4000 2]
        chi2_sf_two_double_underflow
  by (simp add: isf_boundary_def)

text \<open>
  The claim as stated fails at \<open>chi_square = 4000\<close> with two degrees of freedom: the survival
  probability \<open>exp (- 2000)\<close> underflows to \<open>0\<close> and the result is not finite.
\<close>

theorem significance_not_capped:
  "chi2_sf_two_double 4000 = 0
   \<and> \<not> isfinite (significance (\<lambda>x dof. chi2_sf_two_double x) isf_boundary 4000 2)"
  using chi2_sf_two_double_underflow by (simp add: significance_def isf_boundary_def)



section \<open>The likelihood as a table of multipole contributions\<close>

lemma np_binop_tab:
  "np_binop f (map a [0..<c]) (map b [0..<c]) = Inr (map (\<lambda>i. f (a i) (b i)) [0..<c])"
  by (simp add: np_binop_def map2_map_map)

lemma np_iop_tab:
  "np_iop f (map a [0..<c]) (map b [0..<c]) = Inr (map (\<lambda>i. f (a i) (b i)) [0..<c])"
  by (simp add: np_iop_def map2_map_map)

lemma tab_row: "length xs = c \<Longrightarrow> xs = map (\<lambda>i. xs ! i) [0..<c]"
  using map_nth [of xs] by auto

lemma has_shape_row: "has_shape r c A \<Longrightarrow> e < r \<Longrightarrow> length (A ! e) = c"
  by (simp add: has_shape_def list_all_length)

lemma has_shape_sq: "has_shape r c A \<Longrightarrow> has_shape r c (map (map g) A)"
  by (simp add: has_shape_def list_all_length)

lemma log_likelihood_Ebin_rows:
  assumes "e < length S" "e < length B" "e < length V" "e < length D"
    and "length (S ! e) = c" "length (B ! e) = c" "length (V ! e) = c" "length (D ! e) = c"
    and "w_model_f1 L = S" "w_atm_mean L = B" "w_std_square L = V" "w_data L = D"
  shows "log_likelihood_Ebin L f e =
     Inr (fsum (map (\<lambda>i. lnL_term f (S ! e ! i) (B ! e ! i) (D ! e ! i) (V ! e ! i)) [lmin L..<c]))"
proof -
  have s: "S ! e = map (\<lambda>i. S ! e ! i) [0..<c]" using assms(5) by (rule tab_row)
  have b: "B ! e = map (\<lambda>i. B ! e ! i) [0..<c]" using assms(6) by (rule tab_row)
  have v: "V ! e = map (\<lambda>i. V ! e ! i) [0..<c]" using assms(7) by (rule tab_row)
  have d: "D ! e = map (\<lambda>i. D ! e ! i) [0..<c]" using assms(8) by (rule tab_row)
  have "log_likelihood_Ebin L f e =
     bind_res (np_iop fadd (map (\<lambda>x. fmul (Fin x) f) (S ! e))
                  (map (\<lambda>x. fmul (Fin x) (fsub (Fin 1) f)) (B ! e))) (\<lambda>w_model_mean.
     bind_res (np_binop (\<lambda>x y. fsub (Fin x) y) (D ! e) w_model_mean) (\<lambda>diff.
     bind_res (np_binop (\<lambda>x v. fdiv x (Fin v)) (map (\<lambda>x. fneg (fmul x x)) diff) (V ! e)) (\<lambda>q.
     Inr (fsum (drop (lmin L) (map (\<lambda>x. fdiv x (Fin 2)) q))))))"
    using assms(1-4,9-12) by (simp add: log_likelihood_Ebin_def row_def)
  also have "\<dots> = Inr (fsum (map (\<lambda>i. lnL_term f (S ! e ! i) (B ! e ! i) (D ! e ! i) (V ! e ! i)) [lmin L..<c]))"
    apply (subst s, subst b, subst d, subst v)
    apply (simp only: map_map o_def np_iop_tab np_binop_tab bind_res_simps)
    apply (simp add: drop_map lnL_term_def Let_def o_def)
    done
  finally show ?thesis .
qed

lemma collect_Inr: "collect (map (\<lambda>x. Inr (g x)) xs) = Inr (map g xs)"
  by (induction xs) simp_all

lemma tab2: "has_shape k c A \<Longrightarrow> A = map (\<lambda>j. map (\<lambda>i. A ! j ! i) [0..<c]) [0..<k]"
  by (intro nth_equalityI) (auto simp: has_shape_def list_all_length)

lemma map2_tab: "map2 g (map a [0..<k]) (map b [0..<k]) = map (\<lambda>j. g (a j) (b j)) [0..<k]"
  by (simp add: map2_map_map)

lemma mat_binop_tab:
  "mat_binop f (map (\<lambda>j. map (a j) [0..<c]) [0..<k]) (map (\<lambda>j. map (b j) [0..<c]) [0..<k])
   = Inr (map (\<lambda>j. map (\<lambda>i. f (a j i) (b j i)) [0..<c]) [0..<k])"
  by (simp add: mat_binop_def map2_tab np_binop_tab collect_Inr)

lemma mat_iop_tab:
  "mat_iop f (map (\<lambda>j. map (a j) [0..<c]) [0..<k]) (map (\<lambda>j. map (b j) [0..<c]) [0..<k])
   = Inr (map (\<lambda>j. map (\<lambda>i. f (a j i) (b j i)) [0..<c]) [0..<k])"
  by (simp add: mat_iop_def map2_tab np_iop_tab collect_Inr)

lemma scale_rows_tab:
  "scale_rows (map (\<lambda>j. map (a j) [0..<c]) [0..<k]) (map g [0..<k])
   = Inr (map (\<lambda>j. map (\<lambda>i. fmul (Fin (a j i)) (g j)) [0..<c]) [0..<k])"
  by (simp add: scale_rows_def map2_tab o_def)

lemma fsum_concat: "fsum (concat xss) = fsum (map fsum xss)"
  by (induction xss) (simp_all add: fsum_append)

lemma slice_tab:
  assumes "has_shape r c A" "lo \<le> hi" "hi \<le> r"
  shows "slice lo hi A = map (\<lambda>j. map (\<lambda>i. A ! (lo + j) ! i) [0..<c]) [0..<hi - lo]"
proof -
  have "has_shape (hi - lo) c (slice lo hi A)"
    using assms by (auto simp: has_shape_def slice_def list_all_length)
  then have "slice lo hi A = map (\<lambda>j. map (\<lambda>i. slice lo hi A ! j ! i) [0..<c]) [0..<hi - lo]"
    by (rule tab2)
  also have "\<dots> = map (\<lambda>j. map (\<lambda>i. A ! (lo + j) ! i) [0..<c]) [0..<hi - lo]"
    using assms by (auto simp: slice_def has_shape_def)
  finally show ?thesis .
qed

lemma log_likelihood_table:
  assumes "engine_state r c L" "Ebinmin L \<le> Ebinmax L" "Ebinmax L \<le> r"
    and "length f = Ebinmax L - Ebinmin L"
  shows "log_likelihood L f =
     Inr (fsum (map (\<lambda>j. fsum (map (\<lambda>i.
        lnL_term (f ! j) (w_model_f1 L ! (Ebinmin L + j) ! i) (w_atm_mean L ! (Ebinmin L + j) ! i)
          (w_data L ! (Ebinmin L + j) ! i) ((w_std L ! (Ebinmin L + j) ! i) ^ 2)) [lmin L..<c]))
        [0..<Ebinmax L - Ebinmin L]))"
proof -
  let ?k = "Ebinmax L - Ebinmin L"
  have f: "f = map (\<lambda>j. f ! j) [0..<?k]" using assms(4) by (rule tab_row)
  have f1: "map (\<lambda>c. fsub (Fin 1) c) f = map (\<lambda>j. fsub (Fin 1) (f ! j)) [0..<?k]"
    by (subst f) (simp add: o_def)
  have S: "slice (Ebinmin L) (Ebinmax L) (w_model_f1 L)
      = map (\<lambda>j. map (\<lambda>i. w_model_f1 L ! (Ebinmin L + j) ! i) [0..<c]) [0..<?k]"
    using assms by (intro slice_tab) (simp_all add: engine_state_def)
  have B: "slice (Ebinmin L) (Ebinmax L) (w_atm_mean L)
      = map (\<lambda>j. map (\<lambda>i. w_atm_mean L ! (Ebinmin L + j) ! i) [0..<c]) [0..<?k]"
    using assms by (intro slice_tab) (simp_all add: engine_state_def)
  have D: "slice (Ebinmin L) (Ebinmax L) (w_data L)
      = map (\<lambda>j. map (\<lambda>i. w_data L ! (Ebinmin L + j) ! i) [0..<c]) [0..<?k]"
    using assms by (intro slice_tab) (simp_all add: engine_state_def)
  have W: "slice (Ebinmin L) (Ebinmax L) (w_std L)
      = map (\<lambda>j. map (\<lambda>i. w_std L ! (Ebinmin L + j) ! i) [0..<c]) [0..<?k]"
    using assms by (intro slice_tab) (simp_all add: engine_state_def)
  show ?thesis
    unfolding log_likelihood_def S B D W f1
    apply (subst f)
    apply (simp only: scale_rows_tab mat_iop_tab mat_binop_tab bind_res_simps Let_def map_map o_def)
    apply (simp add: fsum_concat o_def drop_map lnL_term_def Let_def)
    done
qed

lemma map_upt_shift: "lo \<le> hi \<Longrightarrow> map (\<lambda>j. h (lo + j)) [0..<hi - lo] = map h [lo..<hi]"
proof -
  assume "lo \<le> hi"
  then have "[lo..<hi] = map (\<lambda>i. i + lo) [0..<hi - lo]"
    by (simp add: map_add_upt)
  then show ?thesis by (simp add: o_def add.commute)
qed

lemma log_likelihood_Ebin_state:
  assumes "engine_state r c L" "e < r"
  shows "log_likelihood_Ebin L f e =
     Inr (fsum (map (\<lambda>i. lnL_term f (w_model_f1 L ! e ! i) (w_atm_mean L ! e ! i)
                   (w_data L ! e ! i) ((w_std L ! e ! i) ^ 2)) [lmin L..<c]))"
proof -
  have sh: "has_shape r c (w_model_f1 L)" "has_shape r c (w_atm_mean L)"
    "has_shape r c (w_data L)" "has_shape r c (w_std L)"
    and sq: "w_std_square L = map (map (\<lambda>s. s ^ 2)) (w_std L)"
    using assms(1) by (simp_all add: engine_state_def)
  have shq: "has_shape r c (w_std_square L)" unfolding sq using sh(4) by (rule has_shape_sq)
  have len: "length (w_model_f1 L) = r" "length (w_atm_mean L) = r" "length (w_data L) = r"
    "length (w_std L) = r" "length (w_std_square L) = r"
    using sh shq by (simp_all add: has_shape_def)
  have "log_likelihood_Ebin L f e =
     Inr (fsum (map (\<lambda>i. lnL_term f (w_model_f1 L ! e ! i) (w_atm_mean L ! e ! i)
                   (w_data L ! e ! i) (w_std_square L ! e ! i)) [lmin L..<c]))"
    using assms(2) len sh shq
    by (intro log_likelihood_Ebin_rows) (simp_all add: has_shape_row)
  moreover have "w_std_square L ! e ! i = (w_std L ! e ! i) ^ 2" if "i < c" for i
    using that assms(2) len sh(4) by (simp add: sq has_shape_row)
  then have "map (\<lambda>i. lnL_term f (w_model_f1 L ! e ! i) (w_atm_mean L ! e ! i)
                   (w_data L ! e ! i) (w_std_square L ! e ! i)) [lmin L..<c]
      = map (\<lambda>i. lnL_term f (w_model_f1 L ! e ! i) (w_atm_mean L ! e ! i)
                   (w_data L ! e ! i) ((w_std L ! e ! i) ^ 2)) [lmin L..<c]"
    by (intro map_cong refl) simp
  ultimately show ?thesis by simp
qed

text \<open>
  C6 (\<open>Likelihood.py\<close>). For every state whose arrays have one shape, with a bin range
  \<open>Ebinmin \<le> Ebinmax\<close> within the rows, and every fraction vector \<open>f\<close> of length
  \<open>Ebinmax - Ebinmin\<close> (finite entries or not), \<open>log_likelihood f\<close> is the sum over the bins
  \<open>ebin\<close> of the range of \<open>log_likelihood_Ebin(f[ebin - Ebinmin], ebin)\<close>.
\<close>

theorem log_likelihood_is_sum_of_bins:
  assumes "engine_state r c L" "Ebinmin L \<le> Ebinmax L" "Ebinmax L \<le> r"
    and "length f = Ebinmax L - Ebinmin L"
  shows "log_likelihood L f =
     map_res fsum (collect (map (\<lambda>ebin. log_likelihood_Ebin L (f ! (ebin - Ebinmin L)) ebin)
                              [Ebinmin L..<Ebinmax L]))"
proof -
  let ?g = "\<lambda>ebin. fsum (map (\<lambda>i. lnL_term (f ! (ebin - Ebinmin L)) (w_model_f1 L ! ebin ! i)
      (w_atm_mean L ! ebin ! i) (w_data L ! ebin ! i) ((w_std L ! ebin ! i) ^ 2)) [lmin L..<c])"
  have eq: "map (\<lambda>ebin. log_likelihood_Ebin L (f ! (ebin - Ebinmin L)) ebin) [Ebinmin L..<Ebinmax L]
      = map (\<lambda>ebin. Inr (?g ebin)) [Ebinmin L..<Ebinmax L]"
    using assms(1,3) by (intro map_cong refl log_likelihood_Ebin_state) auto
  have "map_res fsum (collect (map (\<lambda>ebin. log_likelihood_Ebin L (f ! (ebin - Ebinmin L)) ebin)
                              [Ebinmin L..<Ebinmax L])) = Inr (fsum (map ?g [Ebinmin L..<Ebinmax L]))"
    unfolding eq collect_Inr by simp
  moreover have "log_likelihood L f = Inr (fsum (map ?g [Ebinmin L..<Ebinmax L]))"
    using log_likelihood_table [OF assms] map_upt_shift [OF assms(2), of ?g] by simp
  ultimately show ?thesis by simp
qed

lemma has_shape_replicate: "has_shape r c (replicate r (replicate c x))"
  by (simp add: has_shape_def list_all_length)

lemma engine_state_three_bin_state: "engine_state 3 384 three_bin_state"
  by (simp add: engine_state_def three_bin_state_def has_shape_replicate)

lemma engine_state_example_state: "engine_state 3 384 (example_state d)"
  by (simp add: engine_state_def example_state_def has_shape_replicate)

theorem log_likelihood_is_sum_of_bins_witness:
  "engine_state 3 384 three_bin_state
   \<and> Ebinmin three_bin_state \<le> Ebinmax three_bin_state \<and> Ebinmax three_bin_state \<le> 3
   \<and> length [Fin 0, Fin (1 / 2), Fin 1] = Ebinmax three_bin_state - Ebinmin three_bin_state
   \<and> log_likelihood three_bin_state [Fin 0, Fin (1 / 2), Fin 1] =
       map_res fsum (collect (map (\<lambda>ebin. log_likelihood_Ebin three_bin_state
            ([Fin 0, Fin (1 / 2), Fin 1] ! (ebin - Ebinmin three_bin_state)) ebin)
          [Ebinmin three_bin_state..<Ebinmax three_bin_state]))"
  using log_likelihood_is_sum_of_bins [of 3 384 three_bin_state "[Fin 0, Fin (1 / 2), Fin 1]"]
    engine_state_three_bin_state
  by (simp add: three_bin_state_def)

section \<open>The likelihood of a bin and the normal density\<close>

lemma fsum_Fin: "fsum (map (\<lambda>i. Fin (g i)) xs) = Fin (\<Sum>i\<leftarrow>xs. g i)"
  by (induction xs) simp_all

lemma lnL_term_Fin:
  "v \<noteq> 0 \<Longrightarrow> lnL_term (Fin f) s b d v = Fin (- ((d - (f * s + (1 - f) * b)) ^ 2) / v / 2)"
  by (simp add: lnL_term_def fsub_def Let_def power2_eq_square algebra_simps)


lemma log_likelihood_Ebin_finite:
  assumes "engine_state r c L" "e < r"
    and "list_all (\<lambda>v. v \<noteq> 0) (drop (lmin L) (w_std_square L ! e))"
  shows "log_likelihood_Ebin L (Fin f) e =
     Inr (Fin (\<Sum>i\<leftarrow>[lmin L..<c]. - ((w_data L ! e ! i
                 - (f * w_model_f1 L ! e ! i + (1 - f) * w_atm_mean L ! e ! i)) ^ 2)
                 / (w_std_square L ! e ! i) / 2))"
proof -
  have sq: "w_std_square L = map (map (\<lambda>s. s ^ 2)) (w_std L)" and sh: "has_shape r c (w_std L)"
    using assms(1) by (simp_all add: engine_state_def)
  have len: "length (w_std L) = r" "length (w_std L ! e) = c"
    using sh assms(2) by (simp_all add: has_shape_def list_all_length)
  have v: "w_std_square L ! e ! i = (w_std L ! e ! i) ^ 2 \<and> w_std_square L ! e ! i \<noteq> 0"
    if "i \<in> set [lmin L..<c]" for i
  proof -
    have i: "lmin L \<le> i" "i < c" using that by simp_all
    have "length (drop (lmin L) (w_std_square L ! e)) = c - lmin L"
      using len assms(2) by (simp add: sq)
    then have "\<forall>n<c - lmin L. drop (lmin L) (w_std_square L ! e) ! n \<noteq> 0"
      using assms(3) by (simp add: list_all_length)
    moreover have "i - lmin L < c - lmin L" using i by simp
    ultimately have "drop (lmin L) (w_std_square L ! e) ! (i - lmin L) \<noteq> 0" by blast
    then show ?thesis using i len assms(2) by (simp add: sq)
  qed
  have eq: "map (\<lambda>i. lnL_term (Fin f) (w_model_f1 L ! e ! i) (w_atm_mean L ! e ! i)
                   (w_data L ! e ! i) ((w_std L ! e ! i) ^ 2)) [lmin L..<c]
      = map (\<lambda>i. Fin (- ((w_data L ! e ! i
                 - (f * w_model_f1 L ! e ! i + (1 - f) * w_atm_mean L ! e ! i)) ^ 2)
                 / (w_std_square L ! e ! i) / 2)) [lmin L..<c]"
  proof (intro map_cong refl)
    fix i assume "i \<in> set [lmin L..<c]"
    from v [OF this] have a: "w_std_square L ! e ! i = (w_std L ! e ! i) ^ 2"
      and b: "w_std_square L ! e ! i \<noteq> 0" by blast+
    from b have nz: "(w_std L ! e ! i) ^ 2 \<noteq> 0" unfolding a .
    show "lnL_term (Fin f) (w_model_f1 L ! e ! i) (w_atm_mean L ! e ! i)
                   (w_data L ! e ! i) ((w_std L ! e ! i) ^ 2)
        = Fin (- ((w_data L ! e ! i
                 - (f * w_model_f1 L ! e ! i + (1 - f) * w_atm_mean L ! e ! i)) ^ 2)
                 / (w_std_square L ! e ! i) / 2)"
      unfolding a by (rule lnL_term_Fin [OF nz])
  qed
  show ?thesis
    unfolding log_likelihood_Ebin_state [OF assms(1,2)] eq fsum_Fin ..
qed


lemma example_state_fields:
  "lmin (example_state d) = 50" "Ebinmin (example_state d) = 0" "Ebinmax (example_state d) = 1"
  "i < 384 \<Longrightarrow> w_data (example_state d) ! 0 ! i = d"
  "i < 384 \<Longrightarrow> w_model_f1 (example_state d) ! 0 ! i = 5"
  "i < 384 \<Longrightarrow> w_atm_mean (example_state d) ! 0 ! i = 0"
  "i < 384 \<Longrightarrow> w_std (example_state d) ! 0 ! i = 1"
  "i < 384 \<Longrightarrow> w_std_square (example_state d) ! 0 ! i = 1"
  "drop 50 (w_std_square (example_state d) ! 0) = replicate 334 1"
  by (simp_all add: example_state_def)

lemma sum_list_const_upt: "(\<Sum>i\<leftarrow>[l..<c]. (k::real)) = real (c - l) * k"
  by (simp add: sum_list_triv)

lemma example_state_lnL:
  "log_likelihood_Ebin (example_state d) (Fin f) 0 = Inr (Fin (334 * (- ((d - 5 * f) ^ 2) / 2)))"
proof -
  have nz: "list_all (\<lambda>v. v \<noteq> 0)
      (drop (lmin (example_state d)) (w_std_square (example_state d) ! 0))"
    by (simp add: example_state_fields list_all_length)
  have "(\<Sum>i\<leftarrow>[50..<384]. - ((w_data (example_state d) ! 0 ! i
                 - (f * w_model_f1 (example_state d) ! 0 ! i
                    + (1 - f) * w_atm_mean (example_state d) ! 0 ! i)) ^ 2)
                 / (w_std_square (example_state d) ! 0 ! i) / 2)
      = (\<Sum>i\<leftarrow>[50..<384]. - ((d - 5 * f) ^ 2) / 2)"
    by (intro arg_cong [where f = sum_list] map_cong refl)
       (simp_all add: example_state_fields mult.commute del: upt_rec_numeral)
  also have "\<dots> = 334 * (- ((d - 5 * f) ^ 2) / 2)"
    by (simp only: sum_list_const_upt) simp
  finally show ?thesis
    using log_likelihood_Ebin_finite [OF engine_state_example_state _ nz, of f]
    by (simp add: example_state_fields del: upt_rec_numeral)
qed






section \<open>Data input before the background deviation exists\<close>














section \<open>The test statistic\<close>












section \<open>The closed-form optimiser\<close>

lemma np_binop_map_map:
  "np_binop f (map a xs) (map b xs) = Inr (map (\<lambda>i. f (a i) (b i)) xs)"
  by (simp add: np_binop_def map2_map_map)

lemma drop_tab: "length xs = c \<Longrightarrow> drop l xs = map (\<lambda>i. xs ! i) [l..<c]"
proof -
  assume "length xs = c"
  then have "xs = map (\<lambda>i. xs ! i) [0..<c]" by (rule tab_row)
  then have "drop l xs = drop l (map (\<lambda>i. xs ! i) [0..<c])" by simp
  then show ?thesis by (simp add: drop_map)
qed

lemma analytic_f_state:
  assumes "engine_state r c L" "e < r"
  shows "analytic_f L e =
     Inr (fdiv
       (fsum (map (\<lambda>i. fdiv (Fin ((w_model_f1 L ! e ! i - w_atm_mean L ! e ! i)
                 * (w_data L ! e ! i - w_atm_mean L ! e ! i))) (Fin ((w_std L ! e ! i) ^ 2)))
              [lmin L..<c]))
       (fsum (map (\<lambda>i. fdiv (Fin ((w_model_f1 L ! e ! i - w_atm_mean L ! e ! i) ^ 2))
                 (Fin ((w_std L ! e ! i) ^ 2))) [lmin L..<c])))"
proof -
  have sh: "has_shape r c (w_model_f1 L)" "has_shape r c (w_atm_mean L)"
    "has_shape r c (w_data L)" "has_shape r c (w_std L)"
    using assms(1) by (simp_all add: engine_state_def)
  have len: "length (w_model_f1 L) = r" "length (w_atm_mean L) = r" "length (w_data L) = r"
    "length (w_std L) = r"
    using sh by (simp_all add: has_shape_def)
  have rows: "length (w_model_f1 L ! e) = c" "length (w_atm_mean L ! e) = c"
    "length (w_data L ! e) = c" "length (w_std L ! e) = c"
    using sh assms(2) by (simp_all add: has_shape_row)
  show ?thesis
    unfolding analytic_f_def
    using assms(2) len
    by (simp add: row_def drop_tab [OF rows(1)] drop_tab [OF rows(2)] drop_tab [OF rows(3)]
        drop_tab [OF rows(4)] np_binop_map_map o_def)
qed

lemma analytic_f_finite:
  assumes "engine_state r c L" "e < r"
    and "list_all (\<lambda>s. s \<noteq> 0) (drop (lmin L) (w_std L ! e))"
    and "fhat_denominator L e \<noteq> 0"
  shows "analytic_f L e = Inr (Fin (closed_form_fhat L e))"
proof -
  have sh: "has_shape r c (w_data L)" "has_shape r c (w_std L)"
    using assms(1) by (simp_all add: engine_state_def)
  have rows: "length (w_data L ! e) = c" "length (w_std L ! e) = c"
    using sh assms(2) by (simp_all add: has_shape_row)
  have nz: "w_std L ! e ! i \<noteq> 0" if "i \<in> set [lmin L..<c]" for i
  proof -
    have "\<forall>n<c - lmin L. drop (lmin L) (w_std L ! e) ! n \<noteq> 0"
      using assms(3) rows by (simp add: list_all_length)
    moreover have "i - lmin L < c - lmin L" using that by auto
    ultimately have "drop (lmin L) (w_std L ! e) ! (i - lmin L) \<noteq> 0" by blast
    then show ?thesis using that rows by simp
  qed
  have n: "map (\<lambda>i. fdiv (Fin ((w_model_f1 L ! e ! i - w_atm_mean L ! e ! i)
                 * (w_data L ! e ! i - w_atm_mean L ! e ! i))) (Fin ((w_std L ! e ! i) ^ 2)))
              [lmin L..<c]
      = map (\<lambda>i. Fin ((w_model_f1 L ! e ! i - w_atm_mean L ! e ! i)
                 * (w_data L ! e ! i - w_atm_mean L ! e ! i) / (w_std L ! e ! i) ^ 2))
              [lmin L..<c]"
    by (intro map_cong refl) (use nz in simp)
  have d: "map (\<lambda>i. fdiv (Fin ((w_model_f1 L ! e ! i - w_atm_mean L ! e ! i) ^ 2))
                 (Fin ((w_std L ! e ! i) ^ 2))) [lmin L..<c]
      = map (\<lambda>i. Fin ((w_model_f1 L ! e ! i - w_atm_mean L ! e ! i) ^ 2 / (w_std L ! e ! i) ^ 2))
              [lmin L..<c]"
    by (intro map_cong refl) (use nz in simp)
  have "analytic_f L e = Inr (fdiv (Fin (fhat_numerator L e)) (Fin (fhat_denominator L e)))"
    unfolding analytic_f_state [OF assms(1,2)] n d fsum_Fin
    by (simp add: fhat_numerator_def fhat_denominator_def rows)
  then show ?thesis using assms(4) by (simp add: closed_form_fhat_def)
qed

lemma quadratic_expand:
  "(\<Sum>i\<leftarrow>xs. (y i - f * a i) ^ 2 / v i)
   = (\<Sum>i\<leftarrow>xs. (y i) ^ 2 / v i) - 2 * f * (\<Sum>i\<leftarrow>xs. a i * y i / v i)
     + f ^ 2 * (\<Sum>i\<leftarrow>xs. (a i) ^ 2 / v i)" for f :: real
proof (induction xs)
  case Nil
  then show ?case by simp
next
  case (Cons i xs)
  have "(y i - f * a i) ^ 2 / v i
      = (y i) ^ 2 / v i - 2 * f * (a i * y i / v i) + f ^ 2 * ((a i) ^ 2 / v i)"
    by (simp add: power2_eq_square algebra_simps diff_divide_distrib add_divide_distrib)
  then show ?case using Cons.IH by (simp add: algebra_simps)
qed

lemma quadratic_minimum:
  fixes f :: real
  assumes "A \<noteq> 0"
  shows "(Q0 - 2 * f * N + f ^ 2 * A) - (Q0 - 2 * (N / A) * N + (N / A) ^ 2 * A)
         = A * (f - N / A) ^ 2"
  using assms by (simp add: power2_eq_square field_simps)

lemma gaussian_as_quadratic:
  "gaussian_bin_log_likelihood L f bin
   = - (1 / 2) * ((\<Sum>l\<leftarrow>[lmin L..<length (w_data L ! bin)].
          (w_data L ! bin ! l - w_atm_mean L ! bin ! l) ^ 2 / (w_std L ! bin ! l) ^ 2)
        - 2 * f * fhat_numerator L bin + f ^ 2 * fhat_denominator L bin)"
proof -
  have "(\<Sum>l\<leftarrow>[lmin L..<length (w_data L ! bin)].
        (w_data L ! bin ! l - (f * w_model_f1 L ! bin ! l + (1 - f) * w_atm_mean L ! bin ! l)) ^ 2
        / (w_std L ! bin ! l) ^ 2)
     = (\<Sum>l\<leftarrow>[lmin L..<length (w_data L ! bin)].
        ((w_data L ! bin ! l - w_atm_mean L ! bin ! l)
          - f * (w_model_f1 L ! bin ! l - w_atm_mean L ! bin ! l)) ^ 2
        / (w_std L ! bin ! l) ^ 2)"
    by (intro arg_cong [where f = sum_list] map_cong refl) (simp add: algebra_simps)
  then show ?thesis
    unfolding gaussian_bin_log_likelihood_def fhat_numerator_def fhat_denominator_def
    by (simp only: quadratic_expand)
qed

lemma fhat_denominator_nonneg: "0 \<le> fhat_denominator L bin"
  unfolding fhat_denominator_def by (intro sum_list_nonneg) auto

lemma gaussian_maximum:
  assumes "fhat_denominator L bin \<noteq> 0"
  shows "gaussian_bin_log_likelihood L f bin
         = gaussian_bin_log_likelihood L (closed_form_fhat L bin) bin
           - fhat_denominator L bin / 2 * (f - closed_form_fhat L bin) ^ 2"
proof -
  let ?Q0 = "(\<Sum>l\<leftarrow>[lmin L..<length (w_data L ! bin)].
          (w_data L ! bin ! l - w_atm_mean L ! bin ! l) ^ 2 / (w_std L ! bin ! l) ^ 2)"
  have "(?Q0 - 2 * f * fhat_numerator L bin + f ^ 2 * fhat_denominator L bin)
      - (?Q0 - 2 * (fhat_numerator L bin / fhat_denominator L bin) * fhat_numerator L bin
          + (fhat_numerator L bin / fhat_denominator L bin) ^ 2 * fhat_denominator L bin)
      = fhat_denominator L bin * (f - fhat_numerator L bin / fhat_denominator L bin) ^ 2"
    using assms by (rule quadratic_minimum)
  then show ?thesis
    unfolding gaussian_as_quadratic closed_form_fhat_def by (simp add: algebra_simps)
qed

lemma gaussian_le_maximum:
  assumes "fhat_denominator L bin \<noteq> 0"
  shows "gaussian_bin_log_likelihood L f bin
           \<le> gaussian_bin_log_likelihood L (closed_form_fhat L bin) bin"
    and "f \<noteq> closed_form_fhat L bin \<Longrightarrow>
         gaussian_bin_log_likelihood L f bin
           < gaussian_bin_log_likelihood L (closed_form_fhat L bin) bin"
proof -
  have pos: "0 < fhat_denominator L bin"
    using assms fhat_denominator_nonneg [of L bin] by simp
  have "0 \<le> fhat_denominator L bin / 2 * (f - closed_form_fhat L bin) ^ 2"
    using pos by simp
  then show "gaussian_bin_log_likelihood L f bin
           \<le> gaussian_bin_log_likelihood L (closed_form_fhat L bin) bin"
    using gaussian_maximum [OF assms, of f] by simp
  assume "f \<noteq> closed_form_fhat L bin"
  then have "0 < fhat_denominator L bin / 2 * (f - closed_form_fhat L bin) ^ 2"
    using pos by simp
  then show "gaussian_bin_log_likelihood L f bin
           < gaussian_bin_log_likelihood L (closed_form_fhat L bin) bin"
    using gaussian_maximum [OF assms, of f] by simp
qed

lemma log_likelihood_Ebin_gaussian:
  assumes "engine_state r c L" "e < r"
    and "list_all (\<lambda>s. s \<noteq> 0) (drop (lmin L) (w_std L ! e))"
  shows "log_likelihood_Ebin L (Fin f) e = Inr (Fin (gaussian_bin_log_likelihood L f e))"
proof -
  have sh: "has_shape r c (w_data L)" "has_shape r c (w_std L)"
    and sq: "w_std_square L = map (map (\<lambda>s. s ^ 2)) (w_std L)"
    using assms(1) by (simp_all add: engine_state_def)
  have rows: "length (w_data L ! e) = c" "length (w_std L ! e) = c" "length (w_std L) = r"
    using sh assms(2) by (simp_all add: has_shape_row has_shape_def)
  have v: "w_std_square L ! e = map (\<lambda>s. s ^ 2) (w_std L ! e)"
    using rows assms(2) by (simp add: sq)
  have nz: "list_all (\<lambda>v. v \<noteq> 0) (drop (lmin L) (w_std_square L ! e))"
    using assms(3) unfolding v by (simp add: list_all_length drop_map)
  have "(\<Sum>i\<leftarrow>[lmin L..<c]. - ((w_data L ! e ! i
                 - (f * w_model_f1 L ! e ! i + (1 - f) * w_atm_mean L ! e ! i)) ^ 2)
                 / (w_std_square L ! e ! i) / 2)
      = (\<Sum>i\<leftarrow>[lmin L..<c]. - (1 / 2) * ((w_data L ! e ! i
                 - (f * w_model_f1 L ! e ! i + (1 - f) * w_atm_mean L ! e ! i)) ^ 2
                 / (w_std L ! e ! i) ^ 2))"
    by (intro arg_cong [where f = sum_list] map_cong refl) (simp add: v rows)
  also have "\<dots> = gaussian_bin_log_likelihood L f e"
    unfolding gaussian_bin_log_likelihood_def rows by (simp only: sum_list_const_mult)
  finally show ?thesis
    using log_likelihood_Ebin_finite [OF assms(1,2) nz, of f] by simp
qed

lemma bin_table_gaussian:
  assumes "engine_state r c L" "e < r"
    and "list_all (\<lambda>s. s \<noteq> 0) (drop (lmin L) (w_std L ! e))"
  shows "fsum (map (\<lambda>i. lnL_term (Fin f) (w_model_f1 L ! e ! i) (w_atm_mean L ! e ! i)
                   (w_data L ! e ! i) ((w_std L ! e ! i) ^ 2)) [lmin L..<c])
         = Fin (gaussian_bin_log_likelihood L f e)"
  using log_likelihood_Ebin_state [OF assms(1,2), of "Fin f"]
    log_likelihood_Ebin_gaussian [OF assms, of f] by simp

lemma log_likelihood_gaussian:
  assumes "engine_state r c L" "Ebinmin L \<le> Ebinmax L" "Ebinmax L \<le> r"
    and "list_all (nondegenerate_bin L) [Ebinmin L..<Ebinmax L]"
    and "length fs = Ebinmax L - Ebinmin L"
  shows "log_likelihood L (map Fin fs) = Inr (Fin (gaussian_log_likelihood L fs))"
proof -
  let ?k = "Ebinmax L - Ebinmin L"
  have len: "length (map Fin fs) = ?k" using assms(5) by simp
  have eq: "map (\<lambda>j. fsum (map (\<lambda>i.
        lnL_term (map Fin fs ! j) (w_model_f1 L ! (Ebinmin L + j) ! i)
          (w_atm_mean L ! (Ebinmin L + j) ! i)
          (w_data L ! (Ebinmin L + j) ! i) ((w_std L ! (Ebinmin L + j) ! i) ^ 2)) [lmin L..<c]))
        [0..<?k]
      = map (\<lambda>j. Fin (gaussian_bin_log_likelihood L (fs ! j) (Ebinmin L + j))) [0..<?k]"
  proof (intro map_cong refl)
    fix j assume "j \<in> set [0..<?k]"
    then have j: "j < ?k" by simp
    then have e: "Ebinmin L + j < r" using assms(3) by simp
    have "Ebinmin L + j \<in> set [Ebinmin L..<Ebinmax L]" using j by simp
    then have "nondegenerate_bin L (Ebinmin L + j)"
      using assms(4) unfolding list_all_iff by blast
    then have nz: "list_all (\<lambda>s. s \<noteq> 0) (drop (lmin L) (w_std L ! (Ebinmin L + j)))"
      by (simp add: nondegenerate_bin_def)
    have "map Fin fs ! j = Fin (fs ! j)" using j assms(5) by simp
    then show "fsum (map (\<lambda>i.
        lnL_term (map Fin fs ! j) (w_model_f1 L ! (Ebinmin L + j) ! i)
          (w_atm_mean L ! (Ebinmin L + j) ! i)
          (w_data L ! (Ebinmin L + j) ! i) ((w_std L ! (Ebinmin L + j) ! i) ^ 2)) [lmin L..<c])
      = Fin (gaussian_bin_log_likelihood L (fs ! j) (Ebinmin L + j))"
      using bin_table_gaussian [OF assms(1) e nz, of "fs ! j"] by simp
  qed
  show ?thesis
    unfolding log_likelihood_table [OF assms(1,2,3) len] eq fsum_Fin gaussian_log_likelihood_def ..
qed

lemma analytic_fhat_collect:
  assumes "engine_state r c L" "Ebinmax L \<le> r"
    and "list_all (nondegenerate_bin L) [Ebinmin L..<Ebinmax L]"
  shows "collect (map (analytic_f L) [Ebinmin L..<Ebinmax L]) = Inr (map Fin (analytic_fhat L))"
proof -
  have eq: "map (analytic_f L) [Ebinmin L..<Ebinmax L]
      = map (\<lambda>e. Inr (Fin (closed_form_fhat L e))) [Ebinmin L..<Ebinmax L]"
  proof (intro map_cong refl)
    fix e assume e: "e \<in> set [Ebinmin L..<Ebinmax L]"
    then have "e < r" using assms(2) by simp
    moreover have "nondegenerate_bin L e" using assms(3) e unfolding list_all_iff by blast
    ultimately show "analytic_f L e = Inr (Fin (closed_form_fhat L e))"
      using analytic_f_finite [OF assms(1), of e] by (simp add: nondegenerate_bin_def)
  qed
  show ?thesis unfolding eq collect_Inr analytic_fhat_def by (simp add: o_def)
qed

lemma gaussian_log_likelihood_le_fhat:
  assumes "list_all (nondegenerate_bin L) [Ebinmin L..<Ebinmax L]"
  shows "gaussian_log_likelihood L fs \<le> gaussian_log_likelihood L (analytic_fhat L)"
  unfolding gaussian_log_likelihood_def
proof (rule sum_list_mono)
  fix j assume "j \<in> set [0..<Ebinmax L - Ebinmin L]"
  then have j: "j < Ebinmax L - Ebinmin L" by simp
  then have "Ebinmin L + j \<in> set [Ebinmin L..<Ebinmax L]" by simp
  then have "nondegenerate_bin L (Ebinmin L + j)" using assms unfolding list_all_iff by blast
  then have nz: "fhat_denominator L (Ebinmin L + j) \<noteq> 0" by (simp add: nondegenerate_bin_def)
  have "analytic_fhat L ! j = closed_form_fhat L (Ebinmin L + j)"
    using j by (simp add: analytic_fhat_def)
  then show "gaussian_bin_log_likelihood L (fs ! j) (Ebinmin L + j)
      \<le> gaussian_bin_log_likelihood L (analytic_fhat L ! j) (Ebinmin L + j)"
    using gaussian_le_maximum(1) [OF nz, of "fs ! j"] by simp
qed

lemma minimize__lnL_analytic_value:
  assumes "engine_state r c L" "Ebinmin L \<le> Ebinmax L" "Ebinmax L \<le> r"
    and "list_all (nondegenerate_bin L) [Ebinmin L..<Ebinmax L]"
  shows "minimize__lnL_analytic L =
     Inr (map Fin (analytic_fhat L),
          Fin (2 * (gaussian_log_likelihood L (analytic_fhat L)
                    - gaussian_log_likelihood L (replicate (Ebinmax L - Ebinmin L) 0))))"
proof -
  let ?k = "Ebinmax L - Ebinmin L"
  have c: "collect (map (analytic_f L) [Ebinmin L..<Ebinmax L]) = Inr (map Fin (analytic_fhat L))"
    using assms(1,3,4) by (rule analytic_fhat_collect)
  have lf: "log_likelihood L (map Fin (analytic_fhat L))
      = Inr (Fin (gaussian_log_likelihood L (analytic_fhat L)))"
    using assms by (rule log_likelihood_gaussian) (simp add: analytic_fhat_def)
  have "log_likelihood L (map Fin (replicate ?k 0))
      = Inr (Fin (gaussian_log_likelihood L (replicate ?k 0)))"
    using assms by (rule log_likelihood_gaussian) simp
  then have l0: "log_likelihood L (replicate ?k (Fin 0))
      = Inr (Fin (gaussian_log_likelihood L (replicate ?k 0)))" by simp
  show ?thesis
    using assms(2) by (simp add: minimize__lnL_analytic_def Let_def c lf l0 bind_res_def fsub_def)
qed

lemma minimize__lnL_analytic_closed_form_maximiser:
  assumes "engine_state r c L" "Ebinmin L \<le> Ebinmax L" "Ebinmax L \<le> r"
    and "list_all (nondegenerate_bin L) [Ebinmin L..<Ebinmax L]"
  shows "minimize__lnL_analytic L =
     Inr (map Fin (analytic_fhat L),
          Fin (2 * (gaussian_log_likelihood L (analytic_fhat L)
                    - gaussian_log_likelihood L (replicate (Ebinmax L - Ebinmin L) 0))))"
    and "ebin \<in> set [Ebinmin L..<Ebinmax L] \<Longrightarrow>
         log_likelihood_Ebin L (Fin f) ebin = Inr (Fin (gaussian_bin_log_likelihood L f ebin))"
    and "ebin \<in> set [Ebinmin L..<Ebinmax L] \<Longrightarrow>
         gaussian_bin_log_likelihood L f ebin
           \<le> gaussian_bin_log_likelihood L (closed_form_fhat L ebin) ebin"
    and "ebin \<in> set [Ebinmin L..<Ebinmax L] \<Longrightarrow> f \<noteq> closed_form_fhat L ebin \<Longrightarrow>
         gaussian_bin_log_likelihood L f ebin
           < gaussian_bin_log_likelihood L (closed_form_fhat L ebin) ebin"
    and "length fs = Ebinmax L - Ebinmin L \<Longrightarrow>
         log_likelihood L (map Fin fs) = Inr (Fin (gaussian_log_likelihood L fs))"
    and "gaussian_log_likelihood L fs \<le> gaussian_log_likelihood L (analytic_fhat L)"
proof -
  show "minimize__lnL_analytic L =
     Inr (map Fin (analytic_fhat L),
          Fin (2 * (gaussian_log_likelihood L (analytic_fhat L)
                    - gaussian_log_likelihood L (replicate (Ebinmax L - Ebinmin L) 0))))"
    using assms by (rule minimize__lnL_analytic_value)
  show "length fs = Ebinmax L - Ebinmin L \<Longrightarrow>
         log_likelihood L (map Fin fs) = Inr (Fin (gaussian_log_likelihood L fs))"
    using assms by (rule log_likelihood_gaussian)
  show "gaussian_log_likelihood L fs \<le> gaussian_log_likelihood L (analytic_fhat L)"
    using assms(4) by (rule gaussian_log_likelihood_le_fhat)
  {
    assume e: "ebin \<in> set [Ebinmin L..<Ebinmax L]"
    then have er: "ebin < r" using assms(3) by simp
    have nd: "nondegenerate_bin L ebin" using assms(4) e unfolding list_all_iff by blast
    then have nz: "list_all (\<lambda>s. s \<noteq> 0) (drop (lmin L) (w_std L ! ebin))"
      and dn: "fhat_denominator L ebin \<noteq> 0" by (simp_all add: nondegenerate_bin_def)
    show "log_likelihood_Ebin L (Fin f) ebin = Inr (Fin (gaussian_bin_log_likelihood L f ebin))"
      using assms(1) er nz by (rule log_likelihood_Ebin_gaussian)
    show "gaussian_bin_log_likelihood L f ebin
           \<le> gaussian_bin_log_likelihood L (closed_form_fhat L ebin) ebin"
      using dn by (rule gaussian_le_maximum(1))
    show "f \<noteq> closed_form_fhat L ebin \<Longrightarrow>
         gaussian_bin_log_likelihood L f ebin
           < gaussian_bin_log_likelihood L (closed_form_fhat L ebin) ebin"
      using dn by (rule gaussian_le_maximum(2))
  }
qed

lemma example_state_fhat:
  "fhat_numerator (example_state d) 0 = 334 * (5 * d)"
  "fhat_denominator (example_state d) 0 = 334 * 25"
proof -
  have len: "length (w_data (example_state d) ! 0) = 384" by (simp add: example_state_def)
  have "(\<Sum>l\<leftarrow>[50..<384]. (w_model_f1 (example_state d) ! 0 ! l - w_atm_mean (example_state d) ! 0 ! l)
        * (w_data (example_state d) ! 0 ! l - w_atm_mean (example_state d) ! 0 ! l)
        / (w_std (example_state d) ! 0 ! l) ^ 2) = (\<Sum>l\<leftarrow>[50..<384]. 5 * d)"
    by (intro arg_cong [where f = sum_list] map_cong refl)
       (simp add: example_state_fields del: upt_rec_numeral)
  then show "fhat_numerator (example_state d) 0 = 334 * (5 * d)"
    unfolding fhat_numerator_def len example_state_fields(1) sum_list_const_upt by simp
  have "(\<Sum>l\<leftarrow>[50..<384]. (w_model_f1 (example_state d) ! 0 ! l - w_atm_mean (example_state d) ! 0 ! l) ^ 2
        / (w_std (example_state d) ! 0 ! l) ^ 2) = (\<Sum>l\<leftarrow>[50..<384]. 25)"
    by (intro arg_cong [where f = sum_list] map_cong refl)
       (simp add: example_state_fields del: upt_rec_numeral)
  then show "fhat_denominator (example_state d) 0 = 334 * 25"
    unfolding fhat_denominator_def len example_state_fields(1) sum_list_const_upt by simp
qed

lemma example_state_nondegenerate:
  "list_all (nondegenerate_bin (example_state d)) [Ebinmin (example_state d)..<Ebinmax (example_state d)]"
proof -
  have "drop 50 (w_std (example_state d) ! 0) = replicate 334 1" by (simp add: example_state_def)
  then have "nondegenerate_bin (example_state d) 0"
    by (simp add: nondegenerate_bin_def example_state_fhat example_state_fields(1) list_all_length)
  then show ?thesis by (simp add: example_state_fields)
qed

lemma example_state_analytic_fhat: "analytic_fhat (example_state d) = [d / 5]"
  by (simp add: analytic_fhat_def example_state_fields closed_form_fhat_def example_state_fhat)

lemma example_state_gaussian:
  "gaussian_log_likelihood (example_state d) [f] = 334 * (- ((d - 5 * f) ^ 2) / 2)"
proof -
  have nz: "list_all (\<lambda>s. s \<noteq> 0) (drop (lmin (example_state d)) (w_std (example_state d) ! 0))"
    by (simp add: example_state_def list_all_length)
  have "Inr (Fin (gaussian_bin_log_likelihood (example_state d) f 0))
      = (Inr (Fin (334 * (- ((d - 5 * f) ^ 2) / 2))) :: py_error + npfloat)"
    using log_likelihood_Ebin_gaussian [OF engine_state_example_state _ nz, of f]
      example_state_lnL [of d f] by simp
  then show ?thesis by (simp add: gaussian_log_likelihood_def example_state_fields)
qed

lemma minimize__lnL_analytic_example:
  "minimize__lnL_analytic (example_state 5) = Inr ([Fin 1], Fin 8350)"
  using minimize__lnL_analytic_value [OF engine_state_example_state _ _ example_state_nondegenerate, of 5]
  by (simp add: example_state_analytic_fhat example_state_gaussian example_state_fields)

section \<open>The engine of \<open>BeamLikelihood.py\<close>\<close>

lemma bind_res_assoc: "bind_res (bind_res m k) g = bind_res m (\<lambda>x. bind_res (k x) g)"
  by (cases m) simp_all

lemma beam_loop_step:
  assumes "binned_lmin B = Inr l" "i < length f"
  shows "beam_log_likelihood_loop logpdf B l f acc ((i, e) # rest) =
     bind_res (beam_log_likelihood_Ebin logpdf B (f ! i) e)
       (\<lambda>v. beam_log_likelihood_loop logpdf B l f (fadd acc v) rest)"
  using assms by (simp add: beam_log_likelihood_Ebin_def bind_res_assoc row_def)

lemma beam_loop_sum:
  assumes "binned_lmin B = Inr l" "list_all (\<lambda>p. fst p < length f) ps"
  shows "beam_log_likelihood_loop logpdf B l f acc ps =
     map_res (\<lambda>vs. fadd acc (fsum vs))
       (collect (map (\<lambda>p. beam_log_likelihood_Ebin logpdf B (f ! fst p) (snd p)) ps))"
  using assms(2)
proof (induction ps arbitrary: acc)
  case Nil
  then show ?case by simp
next
  case (Cons p ps)
  obtain i e where p: "p = (i, e)" by (cases p)
  have i: "i < length f" and rest: "list_all (\<lambda>p. fst p < length f) ps"
    using Cons.prems p by simp_all
  show ?case
    unfolding p beam_loop_step [OF assms(1) i]
    by (cases "beam_log_likelihood_Ebin logpdf B (f ! i) e";
        cases "collect (map (\<lambda>p. beam_log_likelihood_Ebin logpdf B (f ! fst p) (snd p)) ps)")
       (simp_all add: Cons.IH [OF rest] fadd_assoc)
qed

lemma zip_enumerate_range:
  "zip [0..<b - a] [a..<b] = map (\<lambda>e. (e - a, e)) [a..<b]"
  by (intro nth_equalityI) simp_all

lemma beam_log_likelihood_is_sum_of_bins:
  assumes "lbin_beam B \<noteq> 0" "length f = Ebinmax_beam B - Ebinmin_beam B"
  shows "beam_log_likelihood logpdf B f =
     map_res fsum (collect (map (\<lambda>ebin.
         beam_log_likelihood_Ebin logpdf B (f ! (ebin - Ebinmin_beam B)) ebin)
       [Ebinmin_beam B..<Ebinmax_beam B]))"
proof -
  let ?l = "lmin_beam B div lbin_beam B"
  have l: "binned_lmin B = Inr ?l" using assms(1) by (simp add: binned_lmin_def)
  have all: "list_all (\<lambda>p. fst p < length f)
      (map (\<lambda>e. (e - Ebinmin_beam B, e)) [Ebinmin_beam B..<Ebinmax_beam B])"
    using assms(2) by (auto simp: list_all_iff)
  show ?thesis
    unfolding beam_log_likelihood_def l zip_enumerate_range
    by (simp add: beam_loop_sum [OF l all] o_def)
qed

lemma beam_chi_square_Ebin_is_minus_two:
  "beam_chi_square_Ebin logpdf B f energyBin =
     map_res (fmul (Fin (- 2))) (beam_log_likelihood_Ebin logpdf B f energyBin)"
  by (simp add: beam_chi_square_Ebin_def)

lemma diagonal_block_square:
  assumes "has_shape c c cov"
  shows "diagonal_block cov l (c - l) = Inr (map (\<lambda>i. cov ! i ! i) [l..<c])"
proof -
  have len: "length cov = c" and rows: "\<And>i. i < c \<Longrightarrow> length (cov ! i) = c"
    using assms by (simp_all add: has_shape_def list_all_length)
  have a: "length (map (drop l) (drop l cov)) = c - l" using len by simp
  have b: "list_all (\<lambda>r. length r = c - l) (map (drop l) (drop l cov))"
    using len rows by (simp add: list_all_length)
  have "map (\<lambda>i. map (drop l) (drop l cov) ! i ! i) [0..<c - l]
      = map (\<lambda>i. cov ! (l + i) ! (l + i)) [0..<c - l]"
    using len rows by (intro map_cong refl) simp
  also have "\<dots> = map (\<lambda>i. cov ! i ! i) [l..<c]"
  proof (cases "l \<le> c")
    case True
    then show ?thesis using map_upt_shift [of l c "\<lambda>i. cov ! i ! i"] by simp
  next
    case False
    then show ?thesis by simp
  qed
  finally show ?thesis using a b by (simp add: diagonal_block_def Let_def)
qed

lemma beam_log_likelihood_Ebin_is_logpdf:
  assumes "lbin_beam B \<noteq> 0"
    and "e < length (w_data_beam B)" "e < length (w_atm_mean_beam B)" "e < length (w_cov_beam B)"
    and "length (w_data_beam B ! e) = c" "length (w_atm_mean_beam B ! e) = c"
    and "length (w_model_f1_beam B) = c" "has_shape c c (w_cov_beam B ! e)"
  shows "beam_log_likelihood_Ebin logpdf B (Fin f) e =
     logpdf (drop (lmin_beam B div lbin_beam B) (w_data_beam B ! e))
       (map Fin (drop (lmin_beam B div lbin_beam B)
          (mixture_mean f (w_model_f1_beam B) (w_atm_mean_beam B ! e))))
       (map (\<lambda>i. w_cov_beam B ! e ! i ! i) [lmin_beam B div lbin_beam B..<c])"
proof -
  let ?l = "lmin_beam B div lbin_beam B"
  have l: "binned_lmin B = Inr ?l" using assms(1) by (simp add: binned_lmin_def)
  have mean: "np_iop fadd (map (\<lambda>x. Fin (x * f)) (drop ?l (w_model_f1_beam B)))
        (map (\<lambda>x. fmul (Fin x) (fsub (Fin 1) (Fin f))) (drop ?l (w_atm_mean_beam B ! e)))
      = Inr (map Fin (drop ?l (mixture_mean f (w_model_f1_beam B) (w_atm_mean_beam B ! e))))"
    using assms(6,7)
    by (simp add: np_iop_def mixture_mean_def fsub_def zip_map1 zip_map2 drop_map drop_zip
        split_def o_def mult.commute)
  show ?thesis
    using assms(2-5)
    by (simp add: beam_log_likelihood_Ebin_def l row_def mean diagonal_block_square [OF assms(8)])
qed


lemma sum_list_nth_upt: "(\<Sum>v\<leftarrow>xs. g v) = (\<Sum>i\<leftarrow>[0..<length xs]. g (xs ! i))"
proof -
  have "map g xs = map g (map (\<lambda>i. xs ! i) [0..<length xs])" by (simp add: map_nth)
  then show ?thesis by (simp add: o_def)
qed

lemma diag_normal_logpdf_closed_form:
  assumes "var \<noteq> []" "length x = length var" "length mu = length var"
    and "list_all (\<lambda>v. 0 < v) var"
  shows "diag_normal_logpdf x (map Fin mu) var = Inr (Fin (mvn_logpdf_diag x mu var))"
proof -
  have pos: "\<And>i. i < length var \<Longrightarrow> 0 < var ! i" using assms(4) by (simp add: list_all_length)
  have no_neg: "\<not> list_ex (\<lambda>v. v < 0) var" and no_zero: "\<not> list_ex (\<lambda>v. v = 0) var"
    using assms(4) by (auto simp: list_ex_iff list_all_iff)
  have eq: "map (\<lambda>i. let d = fsub (Fin (x ! i)) (map Fin mu ! i)
                     in fdiv (fmul d d) (Fin (var ! i))) [0..<length var]
      = map (\<lambda>i. Fin ((x ! i - mu ! i) ^ 2 / var ! i)) [0..<length var]"
  proof (intro map_cong refl)
    fix i assume "i \<in> set [0..<length var]"
    then have i: "i < length var" by simp
    then have "var ! i \<noteq> 0" using pos [of i] by simp
    then show "(let d = fsub (Fin (x ! i)) (map Fin mu ! i) in fdiv (fmul d d) (Fin (var ! i)))
        = Fin ((x ! i - mu ! i) ^ 2 / var ! i)"
      using i assms(3) by (simp add: fsub_def Let_def power2_eq_square)
  qed
  have "diag_normal_logpdf x (map Fin mu) var
      = Inr (fmul (Fin (- (1 / 2)))
             (fadd (Fin (\<Sum>v\<leftarrow>var. ln (2 * pi * v)))
                (Fin (\<Sum>i\<leftarrow>[0..<length var]. (x ! i - mu ! i) ^ 2 / var ! i))))"
    unfolding diag_normal_logpdf_def eq fsum_Fin using assms(1,2,3) no_neg no_zero by simp
  also have "\<dots> = Inr (Fin (mvn_logpdf_diag x mu var))"
    unfolding mvn_logpdf_diag_def mvn_log_normalization_def assms(2)
      sum_list_nth_upt [of "\<lambda>v. ln (2 * pi * v)" var]
    by (simp add: algebra_simps)
  finally show ?thesis .
qed

lemma beam_log_likelihood_Ebin_normalised:
  assumes "lbin_beam B \<noteq> 0"
    and "e < length (w_data_beam B)" "e < length (w_atm_mean_beam B)" "e < length (w_cov_beam B)"
    and "length (w_data_beam B ! e) = c" "length (w_atm_mean_beam B ! e) = c"
    and "length (w_model_f1_beam B) = c" "has_shape c c (w_cov_beam B ! e)"
    and "lmin_beam B div lbin_beam B < c"
    and "list_all (\<lambda>i. 0 < w_cov_beam B ! e ! i ! i) [lmin_beam B div lbin_beam B..<c]"
  shows "beam_log_likelihood_Ebin diag_normal_logpdf B (Fin f) e =
     Inr (Fin (mvn_logpdf_diag (drop (lmin_beam B div lbin_beam B) (w_data_beam B ! e))
       (drop (lmin_beam B div lbin_beam B)
          (mixture_mean f (w_model_f1_beam B) (w_atm_mean_beam B ! e)))
       (map (\<lambda>i. w_cov_beam B ! e ! i ! i) [lmin_beam B div lbin_beam B..<c])))"
proof -
  let ?l = "lmin_beam B div lbin_beam B"
  have "diag_normal_logpdf (drop ?l (w_data_beam B ! e))
       (map Fin (drop ?l (mixture_mean f (w_model_f1_beam B) (w_atm_mean_beam B ! e))))
       (map (\<lambda>i. w_cov_beam B ! e ! i ! i) [?l..<c])
     = Inr (Fin (mvn_logpdf_diag (drop ?l (w_data_beam B ! e))
       (drop ?l (mixture_mean f (w_model_f1_beam B) (w_atm_mean_beam B ! e)))
       (map (\<lambda>i. w_cov_beam B ! e ! i ! i) [?l..<c])))"
    using assms(5,6,7,9,10)
    by (intro diag_normal_logpdf_closed_form) (simp_all add: mixture_mean_def list_all_iff)
  then show ?thesis
    unfolding beam_log_likelihood_Ebin_is_logpdf [OF assms(1-8)] .
qed

lemma beam_analytic_f_raises: "beam_analytic_f B ebin = Inl IndexError"
  by (simp add: beam_analytic_f_def too_many_indices_def)

text \<open>
  C5 (\<open>BeamLikelihood.py\<close>). \<open>Likelihood.minimize__lnL_analytic\<close> returns the closed
  form of the specification, and that ratio is the maximiser of the log-likelihood of the bin
  (\<open>minimize__lnL_analytic_closed_form_maximiser\<close>). The method of the same name of
  \<open>BeamLikelihood\<close> does not: for every state whose bin range \<open>Ebinmin < Ebinmax\<close> is not
  empty it raises \<open>IndexError\<close> in the first statement of its loop, which reads the
  one-dimensional \<open>w_model_f1\<close> with two indices, and returns no fraction at all.
\<close>

theorem beam_minimize__lnL_analytic_raises_IndexError:
  assumes "Ebinmin_beam B < Ebinmax_beam B"
  shows "beam_minimize__lnL_analytic logpdf B = Inl IndexError"
proof -
  have "[Ebinmin_beam B..<Ebinmax_beam B] = Ebinmin_beam B # [Suc (Ebinmin_beam B)..<Ebinmax_beam B]"
    using assms by (rule upt_conv_Cons)
  then have "collect (map (beam_analytic_f B) [Ebinmin_beam B..<Ebinmax_beam B]) = Inl IndexError"
    by (simp add: beam_analytic_f_raises)
  then show ?thesis
    using assms by (simp add: beam_minimize__lnL_analytic_def Let_def bind_res_def)
qed

theorem beam_minimize__lnL_analytic_raises_IndexError_witness:
  "Ebinmin_beam beam_example < Ebinmax_beam beam_example
   \<and> beam_minimize__lnL_analytic diag_normal_logpdf beam_example = Inl IndexError"
  using beam_minimize__lnL_analytic_raises_IndexError [of beam_example diag_normal_logpdf]
  by (simp add: beam_example_def)

end
